theory Spec2Isabelle
  imports Main "HOL-Library.Extended_Nat" "HOL-Library.Sublist"
begin

section \<open>JavaScript values and strings\<close>

text \<open>
  Configuration values arrive from the editor as untyped JSON; the TypeScript casts
  (\<open>as string[]\<close>, \<open>as boolean\<close>) check nothing at run time, so the constructor of
  \<open>Settings\<close> is modelled over the values themselves. Numbers are integers here
  (the delay and the enum values are the only numbers the code looks at).
\<close>

datatype jv =
    JUndefined
  | JNull
  | JBool bool
  | JNum int
  | JStr string
  | JArr "jv list"
  | JObj "(string \<times> jv) list"

datatype jstype = TyUndefined | TyObject | TyBoolean | TyNumber | TyString

fun typeof :: "jv \<Rightarrow> jstype" where
  "typeof JUndefined = TyUndefined"
| "typeof JNull = TyObject"
| "typeof (JBool b) = TyBoolean"
| "typeof (JNum n) = TyNumber"
| "typeof (JStr s) = TyString"
| "typeof (JArr xs) = TyObject"
| "typeof (JObj kvs) = TyObject"

fun isArray :: "jv \<Rightarrow> bool" where
  "isArray (JArr xs) = True"
| "isArray v = False"

text \<open>An exception: \<open>new Error(message)\<close>, or the \<open>TypeError\<close> the runtime raises
  on a property access or call that the value does not support.\<close>

datatype error = Error string | TypeError

text \<open>\<open>xs[i]\<close> on an array: \<open>undefined\<close> out of range.\<close>

definition at_index :: "jv list \<Rightarrow> nat \<Rightarrow> jv" where
  "at_index xs i = (if i < length xs then xs ! i else JUndefined)"

text \<open>\<open>s[i]\<close> on a string: the one-character string, \<open>undefined\<close> out of range.\<close>

definition char_at :: "string \<Rightarrow> nat \<Rightarrow> jv" where
  "char_at s i = (if i < length s then JStr [s ! i] else JUndefined)"

text \<open>\<open>content.split("\n")\<close>: always at least one piece.\<close>

fun split_newline :: "string \<Rightarrow> string list" where
  "split_newline [] = [[]]"
| "split_newline (c # cs) =
     (if c = CHR 0x0A then [] # split_newline cs
      else (case split_newline cs of
              [] \<Rightarrow> [[c]]
            | r # rs \<Rightarrow> (c # r) # rs))"

text \<open>\<open>s.indexOf(":")\<close>, \<open>None\<close> for -1.\<close>

fun indexOf :: "string \<Rightarrow> char \<Rightarrow> nat option" where
  "indexOf [] ch = None"
| "indexOf (c # cs) ch =
     (if c = ch then Some 0 else map_option Suc (indexOf cs ch))"

definition is_space :: "char \<Rightarrow> bool" where
  "is_space c = (c \<in> set [CHR 0x09, CHR 0x0A, CHR 0x0B, CHR 0x0C, CHR 0x0D, CHR '' ''])"

definition trim :: "string \<Rightarrow> string" where
  "trim s = rev (dropWhile is_space (rev (dropWhile is_space s)))"

text \<open>Whether the literal occurs somewhere in the string.\<close>

fun occurs_in :: "string \<Rightarrow> string \<Rightarrow> bool" where
  "occurs_in lit [] = (lit = [])"
| "occurs_in lit (c # cs) = (take (length lit) (c # cs) = lit \<or> occurs_in lit cs)"

text \<open>\<open>Map.prototype.set\<close> on a map kept in insertion order: an existing key keeps
  its place, a new key goes last.\<close>

fun map_set :: "('k \<times> 'v) list \<Rightarrow> 'k \<Rightarrow> 'v \<Rightarrow> ('k \<times> 'v) list" where
  "map_set [] k v = [(k, v)]"
| "map_set ((k', v') # m) k v =
     (if k' = k then (k, v) # m else (k', v') # map_set m k v)"

section \<open>Settings\<close>

text \<open>
  Modelled from the spec: \<open>BracketPair\<close> (bracketPair.ts is not among the sources) is
  the pair definition of the data model: open literal, close literal, ordered palette
  of colors, orphan color, stored as given. The literals and the palette entries have
  the values the configuration held: the constructor of \<open>Settings\<close> checks neither.
\<close>

record BracketPair =
  openCharacter :: jv
  closeCharacter :: jv
  colors :: "jv list"
  orphanColor :: jv

text \<open>Modelled from the spec: \<open>ColorMode\<close> (colorMode.ts is not among the sources) is
  the mode selector, Consecutive or Independent.\<close>

datatype ColorMode = Consecutive | Independent

text \<open>
  A regular expression built by \<open>createRegex\<close>: its source text, its flag, and the
  literals whose escaped forms are the alternatives of the source, in that order.
\<close>

record RegExp =
  source :: string
  global :: bool
  literals :: "string list"

text \<open>
  \<open>content.match(regex)\<close> read as a boolean. The alternatives are escaped literals, so
  the pattern matches a string exactly when one of the literals occurs in it; an empty
  source (no literal at all) matches every string.
\<close>

definition regex_match :: "RegExp \<Rightarrow> string \<Rightarrow> bool" where
  "regex_match r content =
     (literals r = [] \<or> list_ex (\<lambda>lit. occurs_in lit content) (literals r))"

text \<open>A decoration type as the renderer knows it: the color it paints.\<close>

datatype TextEditorDecorationType = DecorationType jv

record Settings =
  bracketDecorations :: "(jv \<times> TextEditorDecorationType) list"
  bracketPairs :: "BracketPair list"
  colorMode :: ColorMode
  forceIterationColorCycle :: bool
  forceUniqueOpeningColor :: bool
  prismLanguageID :: string
  regexNonExact :: RegExp
  timeOutLength :: int
  highlightActiveScope :: bool
  showScopeLine :: bool
  showScopeLineExtra :: bool
  showBracketsInGutter :: bool
  scopeLineRelativePosition :: bool
  isDisposed :: bool
  activeBracketCSSElements :: "(string \<times> string) list"
  activeScopeLineCSSElements :: "(string \<times> string) list"
  activeScopeLineCSSBorder :: string

text \<open>
  Modelled from the spec: \<open>regexPattern\<close>, which \<open>parseToken\<close> reads from the settings,
  is not a member of the \<open>Settings\<close> class among the sources; it is the single combined
  regular expression built from all pair literals, which is \<open>regexNonExact\<close>.
\<close>

definition regexPattern :: "Settings \<Rightarrow> RegExp" where
  "regexPattern s = regexNonExact s"

subsection \<open>createRegex\<close>

definition special_chars :: "char list" where
  "special_chars = ''-/'' @ [CHR 0x5C] @ ''^$*+?.()|[]{}''"

definition escape :: "string \<Rightarrow> string" where
  "escape s = concat (map (\<lambda>c. if c \<in> set special_chars then [CHR 0x5C, c] else [c]) s)"

fun as_string :: "jv \<Rightarrow> string option" where
  "as_string (JStr s) = Some s"
| "as_string v = None"

text \<open>The loop that joins the escaped literals with a bar.\<close>

fun join_alternatives :: "string \<Rightarrow> string list \<Rightarrow> string" where
  "join_alternatives regex [] = regex"
| "join_alternatives regex (m # ms) =
     join_alternatives ((if regex \<noteq> [] then regex @ ''|'' else regex) @ escape m) ms"

text \<open>
  \<open>createRegex\<close>. A literal that is not a string has no \<open>replace\<close> method, so \<open>escape\<close>
  raises a \<open>TypeError\<close> (for \<open>null\<close> the comparison function of the sort already does).
  The sort is by decreasing length and stable.
\<close>

definition createRegex :: "BracketPair list \<Rightarrow> bool \<Rightarrow> error + RegExp" where
  "createRegex pairs exact =
     (let matches = concat (map (\<lambda>bracketPair. [openCharacter bracketPair, closeCharacter bracketPair]) pairs)
      in if list_all (\<lambda>m. as_string m \<noteq> None) matches
         then (let sortedByLengthMatches = sort_key (\<lambda>s. - int (length s)) (map (\<lambda>m. the (as_string m)) matches)
               in Inr \<lparr> source = join_alternatives [] sortedByLengthMatches,
                        global = (\<not> exact),
                        literals = sortedByLengthMatches \<rparr>)
         else Inl TypeError)"

subsection \<open>createBracketDecorations\<close>

fun set_colors :: "(jv \<times> TextEditorDecorationType) list \<Rightarrow> jv list \<Rightarrow> (jv \<times> TextEditorDecorationType) list" where
  "set_colors decorations [] = decorations"
| "set_colors decorations (color # cs) = set_colors (map_set decorations color (DecorationType color)) cs"

fun createBracketDecorations_loop ::
  "(jv \<times> TextEditorDecorationType) list \<Rightarrow> BracketPair list \<Rightarrow> (jv \<times> TextEditorDecorationType) list" where
  "createBracketDecorations_loop decorations [] = decorations"
| "createBracketDecorations_loop decorations (bracketPair # ps) =
     createBracketDecorations_loop
       (map_set (set_colors decorations (colors bracketPair))
          (orphanColor bracketPair) (DecorationType (orphanColor bracketPair))) ps"

definition createBracketDecorations :: "BracketPair list \<Rightarrow> (jv \<times> TextEditorDecorationType) list" where
  "createBracketDecorations pairs = createBracketDecorations_loop [] pairs"

subsection \<open>The constructor\<close>

fun show_nat :: "nat \<Rightarrow> string" where
  "show_nat n =
     (if n < 10 then [''0123456789'' ! n]
      else show_nat (n div 10) @ [''0123456789'' ! (n mod 10)])"

definition show_int :: "int \<Rightarrow> string" where
  "show_int i = (if i < 0 then ''-'' @ show_nat (nat (- i)) else show_nat (nat i))"

fun join_comma :: "string list \<Rightarrow> string" where
  "join_comma [] = []"
| "join_comma [s] = s"
| "join_comma (s # ss) = s @ '','' @ join_comma ss"

text \<open>A value used as a property key is converted to a string.\<close>

fun property_key :: "jv \<Rightarrow> string" where
  "property_key JUndefined = ''undefined''"
| "property_key JNull = ''null''"
| "property_key (JBool b) = (if b then ''true'' else ''false'')"
| "property_key (JNum n) = show_int n"
| "property_key (JStr s) = s"
| "property_key (JArr xs) =
     join_comma (map (\<lambda>x. if x = JUndefined \<or> x = JNull then [] else property_key x) xs)"
| "property_key (JObj kvs) = ''[object Object]''"

text \<open>
  \<open>(ColorMode as any)[key]\<close>, together with the test that the result is a number: the
  enum object maps the two names to numbers (and the numbers back to names, which are
  not numbers).
\<close>

definition colorMode_of :: "jv \<Rightarrow> ColorMode option" where
  "colorMode_of v =
     (let key = property_key v
      in if key = ''Consecutive'' then Some Consecutive
         else if key = ''Independent'' then Some Independent
         else None)"

text \<open>One element of \<open>activeScopeCSS\<close> or \<open>scopeLineCSS\<close>, split at the first colon.
  \<open>substring\<close> exists on strings only.\<close>

fun cssElement :: "jv \<Rightarrow> error + (string \<times> string)" where
  "cssElement (JStr e) =
     Inr (case indexOf e (CHR '':'') of
            None \<Rightarrow> (trim [], trim e)
          | Some k \<Rightarrow> (trim (take k e), trim (drop (Suc k) e)))"
| "cssElement v = Inl TypeError"

fun map_throwing :: "('a \<Rightarrow> error + 'b) \<Rightarrow> 'a list \<Rightarrow> error + 'b list" where
  "map_throwing f [] = Inr []"
| "map_throwing f (x # xs) =
     (case f x of
        Inl e \<Rightarrow> Inl e
      | Inr y \<Rightarrow> (case map_throwing f xs of Inl e \<Rightarrow> Inl e | Inr ys \<Rightarrow> Inr (y # ys)))"

fun elements :: "jv \<Rightarrow> jv list" where
  "elements (JArr xs) = xs"
| "elements v = []"

text \<open>\<open>brackets.length\<close> and \<open>brackets[i]\<close> for a string or an array.\<close>

fun js_length :: "jv \<Rightarrow> nat" where
  "js_length (JStr s) = length s"
| "js_length (JArr xs) = length xs"
| "js_length v = 0"

fun js_index :: "jv \<Rightarrow> nat \<Rightarrow> jv" where
  "js_index (JStr s) i = char_at s i"
| "js_index (JArr xs) i = at_index xs i"
| "js_index v i = JUndefined"

definition newBracketPair :: "jv \<Rightarrow> jv \<Rightarrow> jv list \<Rightarrow> jv \<Rightarrow> BracketPair" where
  "newBracketPair firstBracket lastBracket cs orphan =
     \<lparr> openCharacter = firstBracket, closeCharacter = lastBracket, colors = cs, orphanColor = orphan \<rparr>"

text \<open>The body of the \<open>forEach\<close> over the bracket entries of \<open>consecutivePairColors\<close>.\<close>

definition consecutiveEntry :: "jv list \<Rightarrow> jv \<Rightarrow> jv \<Rightarrow> nat \<Rightarrow> error + BracketPair" where
  "consecutiveEntry cs orphan brackets index =
     (if typeof brackets = TyString \<or> isArray brackets then
        (if js_length brackets \<noteq> 2
         then Inl (Error (''consecutivePairColors['' @ show_nat index @ ''] requires 2 element, e.g. [''
                 @ [CHR 0x27] @ ''('' @ [CHR 0x27] @ '','' @ [CHR 0x27] @ '')'' @ [CHR 0x27] @ '']''))
         else Inr (newBracketPair (js_index brackets 0) (js_index brackets 1) cs orphan))
      else Inl (Error (''consecutivePairColors[ '' @ show_nat index @ ''] should be a string or an array of strings'')))"

fun forEach_throwing :: "('a \<Rightarrow> nat \<Rightarrow> error + 'b) \<Rightarrow> 'a list \<Rightarrow> nat \<Rightarrow> error + 'b list" where
  "forEach_throwing f [] index = Inr []"
| "forEach_throwing f (x # xs) index =
     (case f x index of
        Inl e \<Rightarrow> Inl e
      | Inr y \<Rightarrow> (case forEach_throwing f xs (Suc index) of Inl e \<Rightarrow> Inl e | Inr ys \<Rightarrow> Inr (y # ys)))"

text \<open>The body of the \<open>forEach\<close> over \<open>independentPairColors\<close>.\<close>

definition independentEntry :: "jv \<Rightarrow> nat \<Rightarrow> error + BracketPair" where
  "independentEntry innerArray index =
     (if \<not> isArray innerArray
      then Inl (Error (''independentPairColors['' @ show_nat index @ ''] is not an array''))
      else
        (let brackets = js_index innerArray 0
         in if typeof brackets \<noteq> TyString \<and> \<not> isArray brackets
            then Inl (Error (''independentSettings['' @ show_nat index @ ''][0] is not a string or an array of strings''))
            else if js_length brackets < 2
            then Inl (Error (''independentSettings['' @ show_nat index @ ''][0] needs at least 2 elements''))
            else
              (let cs = js_index innerArray 1
               in if \<not> isArray cs
                  then Inl (Error (''independentSettings['' @ show_nat index @ ''][1] is not string[]''))
                  else
                    (let orphan = js_index innerArray 2
                     in if typeof orphan \<noteq> TyString
                        then Inl (Error (''independentSettings['' @ show_nat index @ ''][2] is not a string''))
                        else Inr (newBracketPair (js_index brackets 0) (js_index brackets 1)
                                    (elements cs) orphan)))))"

text \<open>The two branches on the color mode: the pair definitions, or the error thrown.\<close>

definition readBracketPairs :: "ColorMode \<Rightarrow> (string \<Rightarrow> jv) \<Rightarrow> error + BracketPair list" where
  "readBracketPairs mode configuration =
     (if mode = Consecutive then
        (let consecutiveSettings = configuration ''consecutivePairColors''
         in if \<not> isArray consecutiveSettings
            then Inl (Error ''consecutivePairColors is not an array'')
            else
              (let n = js_length consecutiveSettings
               in if n < 3
                  then Inl (Error (''consecutivePairColors expected at least 3 parameters, actual: '' @ show_nat n))
                  else
                    (let orphan = js_index consecutiveSettings (n - 1)
                     in if typeof orphan \<noteq> TyString
                        then Inl (Error (''consecutivePairColors['' @ show_nat (n - 1) @ ''] is not a string''))
                        else
                          (let cs = js_index consecutiveSettings (n - 2)
                           in if \<not> isArray cs
                              then Inl (Error (''consecutivePairColors['' @ show_nat (n - 2) @ ''] is not a string[]''))
                              else forEach_throwing (consecutiveEntry (elements cs) orphan)
                                     (take (n - 2) (elements consecutiveSettings)) 0))))
      else
        (let independentSettings = configuration ''independentPairColors''
         in if \<not> isArray independentSettings
            then Inl (Error ''independentPairColors is not an array'')
            else forEach_throwing independentEntry (elements independentSettings) 0))"

text \<open>
  The constructor, check by check in the order of the source. The font family and the
  gutter icons, which nothing checks, are left out. Reading \<open>borderStyle[0].length\<close>
  raises a \<open>TypeError\<close> when no element of \<open>scopeLineCSS\<close> is named \<open>borderStyle\<close>.
\<close>

definition Settings_constructor :: "string \<Rightarrow> (string \<Rightarrow> jv) \<Rightarrow> error + Settings" where
  "Settings_constructor languageID configuration =
     (let activeScopeCSS = configuration ''activeScopeCSS'' in
      if \<not> isArray activeScopeCSS then Inl (Error ''activeScopeCSS is not an array'') else
      case map_throwing cssElement (elements activeScopeCSS) of Inl e \<Rightarrow> Inl e | Inr bracketCSS \<Rightarrow>
      let scopeLineCSS = configuration ''scopeLineCSS'' in
      if \<not> isArray scopeLineCSS then Inl (Error ''scopeLineCSS is not an array'') else
      case map_throwing cssElement (elements scopeLineCSS) of Inl e \<Rightarrow> Inl e | Inr lineCSS \<Rightarrow>
      let borderStyle = filter (\<lambda>e. fst e = ''borderStyle'') lineCSS in
      if borderStyle = [] then Inl TypeError else
      let border = snd (hd borderStyle) in
      if typeof (configuration ''highlightActiveScope'') \<noteq> TyBoolean
        then Inl (Error ''alwaysHighlightActiveScope is not a boolean'') else
      if typeof (configuration ''showScopeLine'') \<noteq> TyBoolean
        then Inl (Error ''showScopeLine is not a boolean'') else
      if typeof (configuration ''showScopeLineExtra'') \<noteq> TyBoolean
        then Inl (Error ''showScopeLineExtra is not a boolean'') else
      if typeof (configuration ''scopeLineRelativePosition'') \<noteq> TyBoolean
        then Inl (Error ''scopeLineRelativePosition is not a boolean'') else
      if typeof (configuration ''showBracketsInGutter'') \<noteq> TyBoolean
        then Inl (Error ''showBracketsInGutter is not a boolean'') else
      if typeof (configuration ''forceUniqueOpeningColor'') \<noteq> TyBoolean
        then Inl (Error ''forceUniqueOpeningColor is not a boolean'') else
      if typeof (configuration ''forceIterationColorCycle'') \<noteq> TyBoolean
        then Inl (Error ''forceIterationColorCycle is not a boolean'') else
      case colorMode_of (configuration ''colorMode'') of
        None \<Rightarrow> Inl (Error ''colorMode enum could not be parsed'')
      | Some mode \<Rightarrow>
      if typeof (configuration ''timeOut'') \<noteq> TyNumber
        then Inl (Error ''timeOutLength is not a number'') else
      case readBracketPairs mode configuration of Inl e \<Rightarrow> Inl e | Inr pairs \<Rightarrow>
      case createRegex pairs False of Inl e \<Rightarrow> Inl e | Inr regex \<Rightarrow>
      Inr \<lparr> bracketDecorations = createBracketDecorations pairs,
            bracketPairs = pairs,
            colorMode = mode,
            forceIterationColorCycle = (configuration ''forceIterationColorCycle'' = JBool True),
            forceUniqueOpeningColor = (configuration ''forceUniqueOpeningColor'' = JBool True),
            prismLanguageID = languageID,
            regexNonExact = regex,
            timeOutLength = (case configuration ''timeOut'' of JNum n \<Rightarrow> n | _ \<Rightarrow> 0),
            highlightActiveScope = (configuration ''highlightActiveScope'' = JBool True),
            showScopeLine = (configuration ''showScopeLine'' = JBool True),
            showScopeLineExtra = (configuration ''showScopeLineExtra'' = JBool True),
            showBracketsInGutter = (configuration ''showBracketsInGutter'' = JBool True),
            scopeLineRelativePosition = (configuration ''scopeLineRelativePosition'' = JBool True),
            isDisposed = False,
            activeBracketCSSElements = bracketCSS,
            activeScopeLineCSSElements = lineCSS,
            activeScopeLineCSSBorder = border \<rparr>)"


section \<open>The document and its tokens\<close>

record Position =
  line :: nat
  character :: nat

record Range =
  start :: Position
  endPos :: Position

text \<open>\<open>startPos.translate(0, n)\<close>.\<close>

definition translate :: "Position \<Rightarrow> nat \<Rightarrow> nat \<Rightarrow> Position" where
  "translate p lineDelta characterDelta =
     \<lparr> line = line p + lineDelta, character = character p + characterDelta \<rparr>"

text \<open>Modelled from the spec: \<open>FoundBracket\<close> (foundBracket.ts is not among the
  sources) is a located bracket instance: its range and its literal text.\<close>

record FoundBracket =
  bracketRange :: Range
  bracketText :: string

text \<open>
  A Prism token has a type and a content; the content is a string, an array of strings
  and tokens, or a token.
\<close>

datatype token = Token string tcontent
  and tcontent = CString string | CArray "item list" | CToken token
  and item = IString string | IToken token

text \<open>What \<open>prism.tokenize\<close> gives: it throws, it returns a falsy value, or it returns
  the token array.\<close>

datatype tokenized = Throws string | Falsy | Tokenized "item list"

record TextDocumentContentChangeEvent =
  changeRange :: Range
  changeText :: string

record TextEditor =
  editorId :: nat
  editorDocument :: nat

text \<open>
  Modelled from the spec: \<open>TextLine\<close> (textLine.ts is not among the sources) is the
  per-line state: built from the text of the line, the settings, the index and the
  matching state carried over from the previous line; \<open>addBracket\<close> records an
  occurrence on it, \<open>colorRanges\<close> is its mapping from color to ranges, in insertion
  order. The matcher behind it is a parameter of the model, together with the
  tokenizer, which is an external library: a function of the document text.
\<close>

record ('l, 'c) Collaborators =
  newTextLine :: "string \<Rightarrow> Settings \<Rightarrow> nat \<Rightarrow> 'c option \<Rightarrow> 'l"
  copyMultilineContext :: "'l \<Rightarrow> 'c"
  addBracket :: "'l \<Rightarrow> FoundBracket \<Rightarrow> 'l"
  colorRanges :: "'l \<Rightarrow> (jv \<times> Range list) list"
  tokenize :: "string \<Rightarrow> tokenized"

section \<open>DocumentDecoration\<close>

text \<open>
  The fields of the class. The timer handle is \<open>None\<close> while the field is unset; the
  marker \<open>lineToUpdateWhenTimeoutEnds\<close> is a line number or \<open>Infinity\<close>.
\<close>

record 'l DocumentDecoration =
  updateDecorationTimeout :: "nat option"
  lineToUpdateWhenTimeoutEnds :: enat
  lines :: "'l list"
  document :: nat
  settings :: Settings

text \<open>
  What the object reads from and writes to outside itself: the visible editors, the
  name and the lines of its document, the console, the calls of
  \<open>editor.setDecorations\<close> made so far (editor, decoration type, ranges), and the timers
  that are set and have neither fired nor been cleared (handle, delay).
\<close>

datatype warning = WarnMessage string | WarnError string

record World =
  visibleTextEditors :: "TextEditor list"
  documentFileName :: string
  documentLines :: "string list"
  console :: "warning list"
  setDecorationsCalls :: "(nat \<times> TextEditorDecorationType \<times> Range list) list"
  activeTimers :: "(nat \<times> int) list"
  timersCreated :: nat

definition DocumentDecoration_constructor :: "nat \<Rightarrow> Settings \<Rightarrow> 'l DocumentDecoration" where
  "DocumentDecoration_constructor doc st =
     \<lparr> updateDecorationTimeout = None,
       lineToUpdateWhenTimeoutEnds = 0,
       lines = [],
       document = doc,
       settings = st \<rparr>"

text \<open>\<open>document.lineAt(i).text\<close>: an error when the document has no such line.\<close>

definition lineAt :: "World \<Rightarrow> nat \<Rightarrow> error + string" where
  "lineAt w i =
     (if i < length (documentLines w) then Inr (documentLines w ! i)
      else Inl (Error ''Illegal value for line''))"

fun join_lines :: "string list \<Rightarrow> string" where
  "join_lines [] = []"
| "join_lines [l] = l"
| "join_lines (l # ls) = l @ [CHR 0x0A] @ join_lines ls"

definition getText :: "World \<Rightarrow> string" where
  "getText w = join_lines (documentLines w)"

definition clearTimeout :: "nat \<Rightarrow> World \<Rightarrow> World" where
  "clearTimeout h w = w\<lparr> activeTimers := filter (\<lambda>t. fst t \<noteq> h) (activeTimers w) \<rparr>"

definition setTimeout :: "int \<Rightarrow> World \<Rightarrow> nat \<times> World" where
  "setTimeout delay w =
     (timersCreated w,
      w\<lparr> activeTimers := activeTimers w @ [(timersCreated w, delay)],
         timersCreated := Suc (timersCreated w) \<rparr>)"

subsection \<open>getLine\<close>

text \<open>
  The loop of \<open>getLine\<close>, from \<open>i\<close> up to \<open>index\<close>. An exception leaves the lines pushed
  so far in place.
\<close>

function getLine_loop ::
  "('l, 'c) Collaborators \<Rightarrow> Settings \<Rightarrow> World \<Rightarrow> nat \<Rightarrow> nat \<Rightarrow> 'l list \<Rightarrow> 'l list \<times> error option" where
  "getLine_loop ext st w i index ls =
     (if i \<le> index then
        (if ls = [] then (ls, Some TypeError)
         else (case lineAt w i of
                 Inl e \<Rightarrow> (ls, Some e)
               | Inr t \<Rightarrow>
                   getLine_loop ext st w (Suc i) index
                     (ls @ [newTextLine ext t st i (Some (copyMultilineContext ext (last ls)))])))
      else (ls, None))"
  by pat_completeness auto
termination
  by (relation "measure (\<lambda>(ext, st, w, i, index, ls). Suc index - i)") auto

text \<open>
  \<open>getLine\<close> returns a line of the array; the model returns the updated object and the
  place of that line in \<open>lines\<close>, or the exception.
\<close>

definition getLine ::
  "('l, 'c) Collaborators \<Rightarrow> World \<Rightarrow> 'l DocumentDecoration \<Rightarrow> nat \<Rightarrow> 'l DocumentDecoration \<times> (error + nat)" where
  "getLine ext w this index =
     (if index < length (lines this) then (this, Inr index)
      else
        (case (if lines this = []
               then (case lineAt w 0 of
                       Inl e \<Rightarrow> ([], Some e)
                     | Inr t \<Rightarrow> ([newTextLine ext t (settings this) 0 None], None))
               else (lines this, None)) of
           (ls, Some e) \<Rightarrow> (this\<lparr> lines := ls \<rparr>, Inl e)
         | (ls, None) \<Rightarrow>
             (case getLine_loop ext (settings this) w (length ls) index ls of
                (ls', Some e) \<Rightarrow> (this\<lparr> lines := ls' \<rparr>, Inl e)
              | (ls', None) \<Rightarrow> (this\<lparr> lines := ls' \<rparr>, Inr (length ls' - 1)))))"

subsection \<open>updateLowestLineNumber\<close>

fun updateLowestLineNumber ::
  "'l DocumentDecoration \<Rightarrow> TextDocumentContentChangeEvent list \<Rightarrow> 'l DocumentDecoration" where
  "updateLowestLineNumber this [] = this"
| "updateLowestLineNumber this (contentChange # rest) =
     updateLowestLineNumber
       (this\<lparr> lineToUpdateWhenTimeoutEnds :=
                 min (lineToUpdateWhenTimeoutEnds this) (enat (line (start (changeRange contentChange)))) \<rparr>)
       rest"

subsection \<open>The position mapper\<close>

definition parseString :: "string \<Rightarrow> nat \<Rightarrow> nat \<Rightarrow> nat \<times> nat" where
  "parseString content lineIndex charIndex =
     (let split = split_newline content
      in if length split > 1
         then (lineIndex + (length split - 1), length (last split))
         else (lineIndex, charIndex + length content))"

definition foundBracketAt :: "nat \<Rightarrow> nat \<Rightarrow> string \<Rightarrow> FoundBracket" where
  "foundBracketAt lineIndex charIndex content =
     (let startPos = \<lparr> line = lineIndex, character = charIndex \<rparr>;
          endPosition = translate startPos 0 (length content)
      in \<lparr> bracketRange = \<lparr> start = startPos, endPos = endPosition \<rparr>, bracketText = content \<rparr>)"

text \<open>
  \<open>parseToken\<close> and \<open>parseTokenOrStringArray\<close>. The array \<open>positions\<close> that both push to
  is passed in and returned with the cursor.
\<close>

fun parseToken ::
  "'l DocumentDecoration \<Rightarrow> token \<Rightarrow> nat \<Rightarrow> nat \<Rightarrow> FoundBracket list \<Rightarrow> (nat \<times> nat) \<times> FoundBracket list"
and parseTokenOrStringArray ::
  "'l DocumentDecoration \<Rightarrow> item list \<Rightarrow> nat \<Rightarrow> nat \<Rightarrow> FoundBracket list \<Rightarrow> (nat \<times> nat) \<times> FoundBracket list"
where
  "parseToken this (Token ty (CString content)) lineIndex charIndex positions =
     (parseString content lineIndex charIndex,
      (if ty = ''punctuation''
          \<and> lineToUpdateWhenTimeoutEnds this \<le> enat lineIndex
          \<and> regex_match (regexPattern (settings this)) content
       then positions @ [foundBracketAt lineIndex charIndex content]
       else positions))"
| "parseToken this (Token ty (CArray ts)) lineIndex charIndex positions =
     parseTokenOrStringArray this ts lineIndex charIndex positions"
| "parseToken this (Token ty (CToken (Token ty' (CArray ts)))) lineIndex charIndex positions =
     parseTokenOrStringArray this ts lineIndex charIndex positions"
| "parseToken this (Token ty (CToken t)) lineIndex charIndex positions =
     parseToken this t lineIndex charIndex positions"
| "parseTokenOrStringArray this [] lineIndex charIndex positions =
     ((lineIndex, charIndex), positions)"
| "parseTokenOrStringArray this (IToken t # rest) lineIndex charIndex positions =
     (case parseToken this t lineIndex charIndex positions of
        ((lineIndex', charIndex'), positions') \<Rightarrow>
          parseTokenOrStringArray this rest lineIndex' charIndex' positions')"
| "parseTokenOrStringArray this (IString s # rest) lineIndex charIndex positions =
     (case parseString s lineIndex charIndex of
        (lineIndex', charIndex') \<Rightarrow>
          parseTokenOrStringArray this rest lineIndex' charIndex' positions)"

subsection \<open>updateDecorations\<close>

text \<open>
  \<open>this.lines.splice(lineNumber, amountToRemove)\<close> with
  \<open>amountToRemove = this.lines.length - lineNumber\<close>. The start is clamped to the
  length of the array and the count to what is left after the start; a negative count
  (also minus infinity, when the marker is \<open>Infinity\<close>) removes nothing.
\<close>

definition splice_lines :: "'a list \<Rightarrow> enat \<Rightarrow> 'a list" where
  "splice_lines ls lineNumber =
     (case lineNumber of
        enat n \<Rightarrow>
          (let amountToRemove = int (length ls) - int n;
               actualStart = min n (length ls);
               actualDeleteCount = nat (min (max amountToRemove 0) (int (length ls) - int actualStart))
           in take actualStart ls @ drop (actualStart + actualDeleteCount) ls)
      | \<infinity> \<Rightarrow> ls)"

text \<open>How a call of \<open>updateDecorations\<close> ends.\<close>

datatype outcome =
    NoEditors
  | TokenizeThrew
  | TokenizeFalsy
  | Uncaught error
  | Rendered

text \<open>The loop \<open>positions.forEach\<close>: the line of each occurrence is fetched and the
  occurrence is added to it.\<close>

fun addPositions ::
  "('l, 'c) Collaborators \<Rightarrow> World \<Rightarrow> 'l DocumentDecoration \<Rightarrow> FoundBracket list \<Rightarrow>
   'l DocumentDecoration \<times> error option" where
  "addPositions ext w this [] = (this, None)"
| "addPositions ext w this (element # rest) =
     (case getLine ext w this (line (start (bracketRange element))) of
        (this', Inl e) \<Rightarrow> (this', Some e)
      | (this', Inr k) \<Rightarrow>
          addPositions ext w
            (this'\<lparr> lines := (lines this')[k := addBracket ext (lines this' ! k) element] \<rparr>) rest)"

text \<open>The first loop of \<open>colorDecorations\<close>: all colors and ranges of the lines, reduced
  into one map.\<close>

definition addColorRanges :: "(jv \<times> Range list) \<Rightarrow> (jv \<times> Range list) list \<Rightarrow> (jv \<times> Range list) list" where
  "addColorRanges entry colorMap =
     (case map_of colorMap (fst entry) of
        Some existingRanges \<Rightarrow> map_set colorMap (fst entry) (existingRanges @ snd entry)
      | None \<Rightarrow> map_set colorMap (fst entry) (snd entry))"

definition reduceColorRanges :: "('l, 'c) Collaborators \<Rightarrow> 'l list \<Rightarrow> (jv \<times> Range list) list" where
  "reduceColorRanges ext ls =
     fold (\<lambda>l colorMap. fold addColorRanges (colorRanges ext l) colorMap) ls []"

text \<open>The ranges handed to the renderer for a color: those the map holds for it, or the
  empty array.\<close>

definition rangesFor :: "(jv \<times> Range list) list \<Rightarrow> jv \<Rightarrow> Range list" where
  "rangesFor colorMap color = (case map_of colorMap color of Some ranges \<Rightarrow> ranges | None \<Rightarrow> [])"

text \<open>The second loop: the calls of \<open>editor.setDecorations\<close>, in the order made.\<close>

definition decorationCalls ::
  "(jv \<times> TextEditorDecorationType) list \<Rightarrow> (jv \<times> Range list) list \<Rightarrow> TextEditor list \<Rightarrow>
   (nat \<times> TextEditorDecorationType \<times> Range list) list" where
  "decorationCalls decorations colorMap editors =
     concat (map (\<lambda>(color, decoration).
        if color = JStr [] then []
        else map (\<lambda>editor.
               (editorId editor, decoration, rangesFor colorMap color)) editors)
       decorations)"

definition colorDecorations ::
  "('l, 'c) Collaborators \<Rightarrow> 'l DocumentDecoration \<times> World \<Rightarrow> TextEditor list \<Rightarrow> 'l DocumentDecoration \<times> World" where
  "colorDecorations ext tw editors =
     (case tw of (this, w) \<Rightarrow>
       (let colorMap = reduceColorRanges ext (lines this)
        in (this\<lparr> lineToUpdateWhenTimeoutEnds := \<infinity> \<rparr>,
            w\<lparr> setDecorationsCalls := setDecorationsCalls w
                   @ decorationCalls (bracketDecorations (settings this)) colorMap editors \<rparr>)))"

definition updateDecorations ::
  "('l, 'c) Collaborators \<Rightarrow> 'l DocumentDecoration \<times> World \<Rightarrow> ('l DocumentDecoration \<times> World) \<times> outcome" where
  "updateDecorations ext tw =
     (case tw of (this, w) \<Rightarrow>
       (let editors = filter (\<lambda>e. document this = editorDocument e) (visibleTextEditors w)
        in if length editors = 0
           then ((this, w\<lparr> console := console w
                     @ [WarnMessage (''No editors associated with document: '' @ documentFileName w)] \<rparr>),
                 NoEditors)
           else
             (let lineNumber = lineToUpdateWhenTimeoutEnds this;
                  this1 = this\<lparr> lines := splice_lines (lines this) lineNumber \<rparr>
              in case tokenize ext (getText w) of
                   Throws err \<Rightarrow> ((this1, w\<lparr> console := console w @ [WarnError err] \<rparr>), TokenizeThrew)
                 | Falsy \<Rightarrow> ((this1, w), TokenizeFalsy)
                 | Tokenized tokens \<Rightarrow>
                     (let positions = snd (parseTokenOrStringArray this1 tokens 0 0 [])
                      in case addPositions ext w this1 positions of
                           (this2, Some e) \<Rightarrow> ((this2, w), Uncaught e)
                         | (this2, None) \<Rightarrow> (colorDecorations ext (this2, w) editors, Rendered)))))"

subsection \<open>triggerUpdateDecorations and the events\<close>

text \<open>The result carries how the pass ended when one ran within the call.\<close>

definition triggerUpdateDecorations ::
  "('l, 'c) Collaborators \<Rightarrow> 'l DocumentDecoration \<times> World \<Rightarrow>
   ('l DocumentDecoration \<times> World) \<times> outcome option" where
  "triggerUpdateDecorations ext tw =
     (case tw of (this, w) \<Rightarrow>
       if isDisposed (settings this) then ((this, w), None)
       else if timeOutLength (settings this) > 0 then
         (let w1 = (case updateDecorationTimeout this of
                      Some h \<Rightarrow> clearTimeout h w
                    | None \<Rightarrow> w)
          in case setTimeout (timeOutLength (settings this)) w1 of
               (h', w2) \<Rightarrow> ((this\<lparr> updateDecorationTimeout := Some h' \<rparr>, w2), None))
       else (case updateDecorations ext (this, w) of (tw', r) \<Rightarrow> (tw', Some r)))"

definition onDidChangeTextDocument ::
  "('l, 'c) Collaborators \<Rightarrow> TextDocumentContentChangeEvent list \<Rightarrow> 'l DocumentDecoration \<times> World \<Rightarrow>
   ('l DocumentDecoration \<times> World) \<times> outcome option" where
  "onDidChangeTextDocument ext contentChanges tw =
     (case tw of (this, w) \<Rightarrow>
        triggerUpdateDecorations ext (updateLowestLineNumber this contentChanges, w))"

text \<open>
  The callback given to \<open>setTimeout\<close>: when the timer with handle \<open>h\<close> is still active it
  leaves the active timers and \<open>updateDecorations\<close> runs; a timer that was cleared never
  fires.
\<close>

definition timerFires ::
  "('l, 'c) Collaborators \<Rightarrow> nat \<Rightarrow> 'l DocumentDecoration \<times> World \<Rightarrow>
   ('l DocumentDecoration \<times> World) \<times> outcome option" where
  "timerFires ext h tw =
     (case tw of (this, w) \<Rightarrow>
        if h \<in> fst ` set (activeTimers w)
        then (case updateDecorations ext (this, clearTimeout h w) of (tw', r) \<Rightarrow> (tw', Some r))
        else ((this, w), None))"

subsection \<open>dispose\<close>

definition Settings_dispose :: "Settings \<Rightarrow> Settings" where
  "Settings_dispose st =
     (if \<not> isDisposed st then st\<lparr> bracketDecorations := [], isDisposed := True \<rparr> else st)"

definition dispose :: "'l DocumentDecoration \<Rightarrow> 'l DocumentDecoration" where
  "dispose this = this\<lparr> settings := Settings_dispose (settings this) \<rparr>"

text \<open>What an editor shows for a decoration type: the ranges of the last call of
  \<open>setDecorations\<close> for them, \<open>None\<close> when there was no call.\<close>

definition rendered :: "World \<Rightarrow> nat \<Rightarrow> TextEditorDecorationType \<Rightarrow> Range list option" where
  "rendered w e d =
     map_option (\<lambda>c. snd (snd c))
       (List.find (\<lambda>c. fst c = e \<and> fst (snd c) = d) (rev (setDecorationsCalls w)))"

section \<open>Notions the claims are stated with\<close>

text \<open>The colors of a list of pair definitions: all palette colors and all orphan colors.\<close>

definition configuredColors :: "BracketPair list \<Rightarrow> jv set" where
  "configuredColors pairs = (\<Union>p \<in> set pairs. insert (orphanColor p) (set (colors p)))"





section \<open>A concrete matcher, tokenizer and configuration\<close>

text \<open>
  Modelled from the spec: a \<open>TextLine\<close> for one pair definition (the first of the
  settings) under the rules of the Independent mode. An open bracket is pushed and gets
  the palette color at \<open>(depth - 1) mod palette.length\<close>, the depth counted after the
  push; a close bracket pops and takes the stored color of the popped entry, or the
  orphan color when the stack is empty. The stack is the state carried from line to
  line. It is the collaborator at which the theorems below are instantiated.
\<close>

record ExampleLine =
  linePair :: "BracketPair option"
  lineStack :: "jv list"
  lineColorRanges :: "(jv \<times> Range list) list"

definition exampleNewTextLine :: "string \<Rightarrow> Settings \<Rightarrow> nat \<Rightarrow> jv list option \<Rightarrow> ExampleLine" where
  "exampleNewTextLine content st index ctx =
     \<lparr> linePair = (case bracketPairs st of [] \<Rightarrow> None | p # ps \<Rightarrow> Some p),
       lineStack = (case ctx of None \<Rightarrow> [] | Some stack \<Rightarrow> stack),
       lineColorRanges = [] \<rparr>"

definition exampleAddBracket :: "ExampleLine \<Rightarrow> FoundBracket \<Rightarrow> ExampleLine" where
  "exampleAddBracket l b =
     (case linePair l of
        None \<Rightarrow> l
      | Some p \<Rightarrow>
          if JStr (bracketText b) = openCharacter p then
            (let depth = Suc (length (lineStack l));
                 color = (if colors p = [] then JUndefined
                          else colors p ! ((depth - 1) mod length (colors p)))
             in l\<lparr> lineStack := color # lineStack l,
                    lineColorRanges := addColorRanges (color, [bracketRange b]) (lineColorRanges l) \<rparr>)
          else
            (case lineStack l of
               [] \<Rightarrow>
                 l\<lparr> lineColorRanges := addColorRanges (orphanColor p, [bracketRange b]) (lineColorRanges l) \<rparr>
             | color # rest \<Rightarrow>
                 l\<lparr> lineStack := rest,
                    lineColorRanges := addColorRanges (color, [bracketRange b]) (lineColorRanges l) \<rparr>))"

text \<open>A tokenizer for the examples: every bracket character is a punctuation token,
  every other character a plain string.\<close>

definition exampleTokenize :: "string \<Rightarrow> tokenized" where
  "exampleTokenize content =
     Tokenized (map (\<lambda>c. if c \<in> set ''()[]{}'' then IToken (Token ''punctuation'' (CString [c]))
                          else IString [c]) content)"

definition exampleCollaborators :: "(ExampleLine, jv list) Collaborators" where
  "exampleCollaborators =
     \<lparr> newTextLine = exampleNewTextLine,
       copyMultilineContext = lineStack,
       addBracket = exampleAddBracket,
       colorRanges = lineColorRanges,
       tokenize = exampleTokenize \<rparr>"

text \<open>The same collaborators with a tokenizer that throws.\<close>

definition failingCollaborators :: "(ExampleLine, jv list) Collaborators" where
  "failingCollaborators = exampleCollaborators\<lparr> tokenize := (\<lambda>content. Throws ''no grammar'') \<rparr>"

text \<open>A configuration in the Consecutive mode, as a function of the pair list and the
  delay.\<close>

definition exampleConfiguration :: "jv \<Rightarrow> int \<Rightarrow> string \<Rightarrow> jv" where
  "exampleConfiguration pairColors delay key =
     (case map_of
        [(''activeScopeCSS'', JArr [JStr ''borderColor : {color}'']),
         (''scopeLineCSS'', JArr [JStr ''borderStyle : solid'']),
         (''highlightActiveScope'', JBool False),
         (''showScopeLine'', JBool False),
         (''showScopeLineExtra'', JBool False),
         (''scopeLineRelativePosition'', JBool True),
         (''showBracketsInGutter'', JBool False),
         (''forceUniqueOpeningColor'', JBool False),
         (''forceIterationColorCycle'', JBool False),
         (''colorMode'', JStr ''Consecutive''),
         (''timeOut'', JNum delay),
         (''consecutivePairColors'', pairColors)] key of
        None \<Rightarrow> JUndefined
      | Some v \<Rightarrow> v)"


definition examplePairColors :: jv where
  "examplePairColors = JArr [JStr ''()'', JArr [JStr ''Gold'', JStr ''Orchid''], JStr ''Red'']"

text \<open>The settings the constructor builds from the example configuration.\<close>

definition exampleSettings :: "int \<Rightarrow> Settings" where
  "exampleSettings delay =
     \<lparr> bracketDecorations =
         [(JStr ''Gold'', DecorationType (JStr ''Gold'')),
          (JStr ''Orchid'', DecorationType (JStr ''Orchid'')),
          (JStr ''Red'', DecorationType (JStr ''Red''))],
       bracketPairs =
         [\<lparr> openCharacter = JStr ''('', closeCharacter = JStr '')'',
            colors = [JStr ''Gold'', JStr ''Orchid''], orphanColor = JStr ''Red'' \<rparr>],
       colorMode = Consecutive,
       forceIterationColorCycle = False,
       forceUniqueOpeningColor = False,
       prismLanguageID = ''typescript'',
       regexNonExact =
         \<lparr> source = [CHR 0x5C] @ ''(|'' @ [CHR 0x5C] @ '')'', global = True, literals = [''('', '')''] \<rparr>,
       timeOutLength = delay,
       highlightActiveScope = False,
       showScopeLine = False,
       showScopeLineExtra = False,
       showBracketsInGutter = False,
       scopeLineRelativePosition = True,
       isDisposed = False,
       activeBracketCSSElements = [(''borderColor'', ''{color}'')],
       activeScopeLineCSSElements = [(''borderStyle'', ''solid'')],
       activeScopeLineCSSBorder = ''solid'' \<rparr>"

text \<open>A world with one editor on document 7 and one on another document.\<close>

definition exampleWorld :: "string list \<Rightarrow> World" where
  "exampleWorld content =
     \<lparr> visibleTextEditors = [\<lparr> editorId = 1, editorDocument = 7 \<rparr>, \<lparr> editorId = 2, editorDocument = 8 \<rparr>],
       documentFileName = ''a.ts'',
       documentLines = content,
       console = [],
       setDecorationsCalls = [],
       activeTimers = [],
       timersCreated = 0 \<rparr>"

definition exampleDecoration :: "int \<Rightarrow> ExampleLine DocumentDecoration" where
  "exampleDecoration delay = DocumentDecoration_constructor 7 (exampleSettings delay)"

definition exampleChange :: "nat \<Rightarrow> TextDocumentContentChangeEvent" where
  "exampleChange l =
     \<lparr> changeRange = \<lparr> start = \<lparr> line = l, character = 0 \<rparr>, endPos = \<lparr> line = l, character = 1 \<rparr> \<rparr>,
       changeText = ''('' \<rparr>"

definition exampleRange :: "nat \<Rightarrow> nat \<Rightarrow> Range" where
  "exampleRange l c = \<lparr> start = \<lparr> line = l, character = c \<rparr>, endPos = \<lparr> line = l, character = Suc c \<rparr> \<rparr>"

text \<open>A cached line of the example matcher: one open bracket of the given color at its
  first column.\<close>

definition exampleCachedLine :: "jv \<Rightarrow> ExampleLine" where
  "exampleCachedLine color =
     \<lparr> linePair = Some \<lparr> openCharacter = JStr ''('', closeCharacter = JStr '')'',
                         colors = [JStr ''Gold'', JStr ''Orchid''], orphanColor = JStr ''Red'' \<rparr>,
       lineStack = [color],
       lineColorRanges = [(color, [exampleRange 0 0])] \<rparr>"

text \<open>The settings built from a configuration whose palette holds the empty string.\<close>

definition emptyColorSettings :: Settings where
  "emptyColorSettings =
     projr (Settings_constructor ''typescript''
       (exampleConfiguration (JArr [JStr ''()'', JArr [JStr [], JStr ''Gold''], JStr ''Red'']) 0))"

text \<open>A first pass over a document that holds one open bracket, and then, after an edit
  on line 0, a pass in which the tokenizer throws.\<close>

definition exampleFirstPass :: "(ExampleLine DocumentDecoration \<times> World) \<times> outcome" where
  "exampleFirstPass = updateDecorations exampleCollaborators (exampleDecoration 0, exampleWorld [''(''])"

definition exampleFailedPass :: "(ExampleLine DocumentDecoration \<times> World) \<times> outcome" where
  "exampleFailedPass =
     updateDecorations failingCollaborators
       (updateLowestLineNumber (fst (fst exampleFirstPass)) [exampleChange 0], snd (fst exampleFirstPass))"

text \<open>An object with a delay of 50 and no pending work, a first edit on line 5 that
  sets the timer, and a second edit on line 3 that arrives before the timer fires.\<close>

definition exampleIdle :: "ExampleLine DocumentDecoration" where
  "exampleIdle = (exampleDecoration 50)\<lparr> lineToUpdateWhenTimeoutEnds := \<infinity> \<rparr>"

definition exampleFirstEdit :: "(ExampleLine DocumentDecoration \<times> World) \<times> outcome option" where
  "exampleFirstEdit =
     triggerUpdateDecorations exampleCollaborators
       (updateLowestLineNumber exampleIdle [exampleChange 5], exampleWorld [''(''])"

definition exampleSecondEdit :: "(ExampleLine DocumentDecoration \<times> World) \<times> outcome option" where
  "exampleSecondEdit =
     onDidChangeTextDocument exampleCollaborators [exampleChange 3] (fst exampleFirstEdit)"

section \<open>Lemmas about the model\<close>

subsection \<open>The cache and the position mapper\<close>

lemma splice_lines_enat: "splice_lines ls (enat n) = take n ls"
  by (auto simp: splice_lines_def Let_def min_def max_def)

lemma splice_lines_infinity: "splice_lines ls \<infinity> = ls"
  by (simp add: splice_lines_def)

lemma parse_positions_marker:
  "(\<forall>b \<in> set positions. lineToUpdateWhenTimeoutEnds this \<le> enat (line (start (bracketRange b)))) \<Longrightarrow>
   (\<forall>b \<in> set (snd (parseToken this t l c positions)). lineToUpdateWhenTimeoutEnds this \<le> enat (line (start (bracketRange b))))"
  "(\<forall>b \<in> set positions. lineToUpdateWhenTimeoutEnds this \<le> enat (line (start (bracketRange b)))) \<Longrightarrow>
   (\<forall>b \<in> set (snd (parseTokenOrStringArray this ts l c positions)). lineToUpdateWhenTimeoutEnds this \<le> enat (line (start (bracketRange b))))"
  by (induction this t l c positions and this ts l c positions rule: parseToken_parseTokenOrStringArray.induct)
     (auto simp: foundBracketAt_def translate_def Let_def split: prod.splits)

subsection \<open>getLine and the loop over the occurrences\<close>

declare getLine_loop.simps [simp del]

lemma getLine_loop_append:
  "getLine_loop ext st w i index ls = (ls', r) \<Longrightarrow> \<exists>xs. ls' = ls @ xs"
proof (induction ext st w i index ls rule: getLine_loop.induct)
  case (1 ext st w i index ls)
  show ?case
  proof (cases "i \<le> index \<and> ls \<noteq> []")
    case False
    with "1.prems" show ?thesis by (subst (asm) getLine_loop.simps) (auto split: if_splits)
  next
    case True
    show ?thesis
    proof (cases "lineAt w i")
      case (Inl e)
      with True "1.prems" show ?thesis by (subst (asm) getLine_loop.simps) simp
    next
      case (Inr t)
      with True "1.prems" "1.IH"[of t] show ?thesis by (subst (asm) getLine_loop.simps) auto
    qed
  qed
qed

lemma getLine_loop_length:
  "getLine_loop ext st w i index ls = (ls', None) \<Longrightarrow> length ls' = length ls + (Suc index - i)"
proof (induction ext st w i index ls rule: getLine_loop.induct)
  case (1 ext st w i index ls)
  show ?case
  proof (cases "i \<le> index")
    case False
    with "1.prems" show ?thesis by (subst (asm) getLine_loop.simps) (auto split: if_splits)
  next
    case True
    show ?thesis
    proof (cases "ls = []")
      case True
      with \<open>i \<le> index\<close> "1.prems" show ?thesis by (subst (asm) getLine_loop.simps) simp
    next
      case False
      show ?thesis
      proof (cases "lineAt w i")
        case (Inl e)
        with True False "1.prems" show ?thesis by (subst (asm) getLine_loop.simps) simp
      next
        case (Inr t)
        with True False "1.prems" "1.IH"[of t] show ?thesis by (subst (asm) getLine_loop.simps) auto
      qed
    qed
  qed
qed

lemma getLine_fields:
  assumes "getLine ext w this index = (this', r)"
  shows "settings this' = settings this"
    and "lineToUpdateWhenTimeoutEnds this' = lineToUpdateWhenTimeoutEnds this"
    and "document this' = document this"
    and "updateDecorationTimeout this' = updateDecorationTimeout this"
  using assms
  by (auto simp: getLine_def split: if_splits sum.splits prod.splits option.splits)

lemma getLine_append:
  assumes "getLine ext w this index = (this', r)"
  shows "\<exists>xs. lines this' = lines this @ xs"
  using assms
  by (auto simp: getLine_def split: if_splits sum.splits prod.splits option.splits
      dest: getLine_loop_append)

lemma getLine_place:
  assumes "getLine ext w this index = (this', Inr k)"
  shows "k = index \<and> index < length (lines this')"
  using assms
  by (auto simp: getLine_def split: if_splits sum.splits prod.splits option.splits
      dest!: getLine_loop_length)


lemma addPositions_fields:
  "addPositions ext w this ps = (this', r) \<Longrightarrow>
     settings this' = settings this
   \<and> lineToUpdateWhenTimeoutEnds this' = lineToUpdateWhenTimeoutEnds this
   \<and> document this' = document this
   \<and> updateDecorationTimeout this' = updateDecorationTimeout this"
proof (induction ps arbitrary: this)
  case Nil
  then show ?case by simp
next
  case (Cons element rest)
  obtain this1 r1 where g: "getLine ext w this (line (start (bracketRange element))) = (this1, r1)"
    by (cases "getLine ext w this (line (start (bracketRange element)))") auto
  note f = getLine_fields[OF g]
  show ?case
  proof (cases r1)
    case (Inl e)
    with Cons.prems g f show ?thesis by simp
  next
    case (Inr k)
    with Cons.prems g
    have "addPositions ext w (this1\<lparr> lines := (lines this1)[k := addBracket ext (lines this1 ! k) element] \<rparr>) rest = (this', r)"
      by simp
    from Cons.IH[OF this] f show ?thesis by simp
  qed
qed

lemma addPositions_frame:
  "addPositions ext w this ps = (this', r) \<Longrightarrow>
   \<forall>b \<in> set ps. m \<le> enat (line (start (bracketRange b))) \<Longrightarrow>
   length (lines this) \<le> length (lines this')
   \<and> (\<forall>i < length (lines this). enat i < m \<longrightarrow> lines this' ! i = lines this ! i)"
proof (induction ps arbitrary: this)
  case Nil
  then show ?case by simp
next
  case (Cons element rest)
  let ?idx = "line (start (bracketRange element))"
  obtain this1 r1 where g: "getLine ext w this ?idx = (this1, r1)"
    by (cases "getLine ext w this ?idx") auto
  from getLine_append[OF g] obtain xs where xs: "lines this1 = lines this @ xs" by blast
  show ?case
  proof (cases r1)
    case (Inl e)
    with Cons.prems g xs show ?thesis by (auto simp: nth_append)
  next
    case (Inr k)
    let ?this2 = "this1\<lparr> lines := (lines this1)[k := addBracket ext (lines this1 ! k) element] \<rparr>"
    from Inr g getLine_place[of ext w this ?idx this1 k] have k: "k = ?idx" by simp
    from Cons.prems(2) have mk: "m \<le> enat ?idx" by simp
    from Inr Cons.prems g have "addPositions ext w ?this2 rest = (this', r)" by simp
    from Cons.IH[OF this] Cons.prems(2)
    have ih: "length (lines ?this2) \<le> length (lines this')"
         "\<forall>i < length (lines ?this2). enat i < m \<longrightarrow> lines this' ! i = lines ?this2 ! i"
      by auto
    have len: "length (lines this) \<le> length (lines this')" using ih(1) xs by simp
    have "lines this' ! i = lines this ! i" if "i < length (lines this)" "enat i < m" for i
    proof -
      from that mk k have "i \<noteq> k" by auto
      with that ih(2) xs show ?thesis by (auto simp: nth_append)
    qed
    with len show ?thesis by blast
  qed
qed

subsection \<open>What a pass changes and what it keeps\<close>



lemma updateDecorations_frame:
  assumes "updateDecorations ext (this, w) = ((this', w'), r)"
    and "i < length (lines this)" and "enat i < lineToUpdateWhenTimeoutEnds this"
  shows "i < length (lines this') \<and> lines this' ! i = lines this ! i"
proof -
  let ?m = "lineToUpdateWhenTimeoutEnds this"
  let ?this1 = "this\<lparr> lines := splice_lines (lines this) ?m \<rparr>"
  have keep: "i < length (lines ?this1) \<and> lines ?this1 ! i = lines this ! i"
    using assms(2,3) by (cases ?m) (auto simp: splice_lines_enat splice_lines_infinity)
  show ?thesis
  proof (cases "filter (\<lambda>e. document this = editorDocument e) (visibleTextEditors w) = []")
    case True
    with assms show ?thesis by (auto simp: updateDecorations_def Let_def)
  next
    case False
    show ?thesis
    proof (cases "tokenize ext (getText w)")
      case (Throws err)
      with False assms(1) keep show ?thesis by (auto simp: updateDecorations_def Let_def)
    next
      case Falsy
      with False assms(1) keep show ?thesis by (auto simp: updateDecorations_def Let_def)
    next
      case (Tokenized tokens)
      let ?ps = "snd (parseTokenOrStringArray ?this1 tokens 0 0 [])"
      obtain this2 r2 where a: "addPositions ext w ?this1 ?ps = (this2, r2)"
        by (cases "addPositions ext w ?this1 ?ps") auto
      have "\<forall>b \<in> set ?ps. lineToUpdateWhenTimeoutEnds ?this1 \<le> enat (line (start (bracketRange b)))"
        by (rule parse_positions_marker(2)) simp
      then have "\<forall>b \<in> set ?ps. ?m \<le> enat (line (start (bracketRange b)))" by simp
      from addPositions_frame[OF a this] keep assms(3)
      have fr: "i < length (lines this2) \<and> lines this2 ! i = lines this ! i" by auto
      from Tokenized False assms(1) a have "lines this' = lines this2"
        by (auto simp: updateDecorations_def Let_def colorDecorations_def split: option.splits)
      with fr show ?thesis by simp
    qed
  qed
qed

lemma updateLowestLineNumber_fields:
  "lines (updateLowestLineNumber this cs) = lines this
   \<and> settings (updateLowestLineNumber this cs) = settings this
   \<and> document (updateLowestLineNumber this cs) = document this
   \<and> updateDecorationTimeout (updateLowestLineNumber this cs) = updateDecorationTimeout this"
  by (induction cs arbitrary: this) auto

lemma updateLowestLineNumber_marker:
  "lineToUpdateWhenTimeoutEnds (updateLowestLineNumber this cs) =
     Min (insert (lineToUpdateWhenTimeoutEnds this) ((\<lambda>c. enat (line (start (changeRange c)))) ` set cs))"
proof (induction cs arbitrary: this)
  case Nil
  then show ?case by simp
next
  case (Cons c cs)
  have "Min (insert (min (lineToUpdateWhenTimeoutEnds this) (enat (line (start (changeRange c)))))
              ((\<lambda>c. enat (line (start (changeRange c)))) ` set cs))
      = Min (insert (lineToUpdateWhenTimeoutEnds this)
              (insert (enat (line (start (changeRange c)))) ((\<lambda>c. enat (line (start (changeRange c)))) ` set cs)))"
    by (cases "cs = []") (simp_all add: min.assoc min.commute min.left_commute)
  with Cons show ?case by simp
qed

lemma updateLowestLineNumber_le:
  "lineToUpdateWhenTimeoutEnds (updateLowestLineNumber this cs) \<le> lineToUpdateWhenTimeoutEnds this"
  by (simp add: updateLowestLineNumber_marker)

lemma updateLowestLineNumber_ge:
  "enat L \<le> lineToUpdateWhenTimeoutEnds this \<Longrightarrow>
   \<forall>c \<in> set cs. L \<le> line (start (changeRange c)) \<Longrightarrow>
   enat L \<le> lineToUpdateWhenTimeoutEnds (updateLowestLineNumber this cs)"
  by (simp add: updateLowestLineNumber_marker)

lemma updateLowestLineNumber_gr:
  "enat i < lineToUpdateWhenTimeoutEnds this \<Longrightarrow>
   \<forall>c \<in> set cs. i < line (start (changeRange c)) \<Longrightarrow>
   enat i < lineToUpdateWhenTimeoutEnds (updateLowestLineNumber this cs)"
  by (induction cs arbitrary: this) auto

lemma updateDecorations_rendered_marker:
  "updateDecorations ext (this, w) = ((this', w'), Rendered) \<Longrightarrow> lineToUpdateWhenTimeoutEnds this' = \<infinity>"
  by (auto simp: updateDecorations_def Let_def colorDecorations_def
      split: if_splits tokenized.splits prod.splits option.splits)

lemma updateDecorations_other_marker:
  "updateDecorations ext (this, w) = ((this', w'), r) \<Longrightarrow> r \<noteq> Rendered \<Longrightarrow>
   lineToUpdateWhenTimeoutEnds this' = lineToUpdateWhenTimeoutEnds this
   \<and> setDecorationsCalls w' = setDecorationsCalls w"
  by (auto simp: updateDecorations_def Let_def colorDecorations_def
      split: if_splits tokenized.splits prod.splits option.splits dest: addPositions_fields)

lemma updateDecorations_throws:
  assumes "filter (\<lambda>e. document this = editorDocument e) (visibleTextEditors w) \<noteq> []"
    and "tokenize ext (getText w) = Throws err"
  shows "updateDecorations ext (this, w) =
           ((this\<lparr> lines := splice_lines (lines this) (lineToUpdateWhenTimeoutEnds this) \<rparr>,
             w\<lparr> console := console w @ [WarnError err] \<rparr>), TokenizeThrew)"
  using assms by (simp add: updateDecorations_def Let_def)

lemma updateDecorations_truncated:
  assumes "lineToUpdateWhenTimeoutEnds this = enat n"
    and "filter (\<lambda>e. document this = editorDocument e) (visibleTextEditors w) \<noteq> []"
  shows "updateDecorations ext (this\<lparr> lines := take n (lines this) \<rparr>, w) = updateDecorations ext (this, w)"
  using assms by (simp add: updateDecorations_def Let_def splice_lines_enat split: tokenized.splits)

lemma updateLowestLineNumber_eq:
  "updateLowestLineNumber this cs =
     this\<lparr> lineToUpdateWhenTimeoutEnds :=
             fold (\<lambda>c m. min m (enat (line (start (changeRange c))))) cs (lineToUpdateWhenTimeoutEnds this) \<rparr>"
  by (induction cs arbitrary: this) simp_all

lemma updateLowestLineNumber_lines_update:
  "updateLowestLineNumber (this\<lparr> lines := ls \<rparr>) cs = (updateLowestLineNumber this cs)\<lparr> lines := ls \<rparr>"
  by (simp add: updateLowestLineNumber_eq)

subsection \<open>The decorations of the settings\<close>

lemma map_of_map_set: "map_of (map_set m k v) = (map_of m)(k \<mapsto> v)"
  by (induction m k v rule: map_set.induct) (auto simp: fun_eq_iff)

lemma keys_map_set: "fst ` set (map_set m k v) = insert k (fst ` set m)"
  by (induction m k v rule: map_set.induct) auto

lemma distinct_map_set: "distinct (map fst m) \<Longrightarrow> distinct (map fst (map_set m k v))"
proof (induction m k v rule: map_set.induct)
  case (1 k v)
  then show ?case by simp
next
  case (2 k' v' m k v)
  then show ?case using keys_map_set[of m k v] by (auto simp: image_iff)
qed

lemma values_map_set:
  "\<forall>x \<in> set m. P (fst x) (snd x) \<Longrightarrow> P k v \<Longrightarrow> \<forall>x \<in> set (map_set m k v). P (fst x) (snd x)"
  by (induction m k v rule: map_set.induct) auto

lemma set_colors_props:
  "fst ` set (set_colors d cs) = fst ` set d \<union> set cs"
  "distinct (map fst d) \<Longrightarrow> distinct (map fst (set_colors d cs))"
  "\<forall>x \<in> set d. snd x = DecorationType (fst x) \<Longrightarrow> \<forall>x \<in> set (set_colors d cs). snd x = DecorationType (fst x)"
proof (induction d cs rule: set_colors.induct)
  case (1 decorations)
  { case 1 show ?case by simp }
  { case 2 then show ?case by simp }
  { case 3 then show ?case by simp }
next
  case (2 decorations color cs)
  { case 1 show ?case using "2.IH"(1) by (simp add: keys_map_set) }
  { case 2 then show ?case using "2.IH"(2) by (simp add: distinct_map_set) }
  { case 3
    then have "\<forall>x \<in> set (map_set decorations color (DecorationType color)). snd x = DecorationType (fst x)"
      by (intro values_map_set) auto
    then show ?case using "2.IH"(3) by simp }
qed

lemma createBracketDecorations_loop_props:
  "fst ` set (createBracketDecorations_loop d pairs) = fst ` set d \<union> configuredColors pairs"
  "distinct (map fst d) \<Longrightarrow> distinct (map fst (createBracketDecorations_loop d pairs))"
  "\<forall>x \<in> set d. snd x = DecorationType (fst x) \<Longrightarrow>
     \<forall>x \<in> set (createBracketDecorations_loop d pairs). snd x = DecorationType (fst x)"
proof (induction d pairs rule: createBracketDecorations_loop.induct)
  case (1 decorations)
  { case 1 show ?case by (simp add: configuredColors_def) }
  { case 2 then show ?case by simp }
  { case 3 then show ?case by simp }
next
  case (2 decorations bracketPair ps)
  let ?d = "map_set (set_colors decorations (colors bracketPair))
          (orphanColor bracketPair) (DecorationType (orphanColor bracketPair))"
  { case 1 show ?case using "2.IH"(1)
      by (auto simp: keys_map_set set_colors_props(1) configuredColors_def) }
  { case 2
    then have "distinct (map fst ?d)" by (intro distinct_map_set set_colors_props(2))
    then show ?case using "2.IH"(2) by simp }
  { case 3
    then have "\<forall>x \<in> set ?d. snd x = DecorationType (fst x)"
      by (intro values_map_set set_colors_props(3)) auto
    then show ?case using "2.IH"(3) by simp }
qed

lemma createBracketDecorations_keys:
  "fst ` set (createBracketDecorations pairs) = configuredColors pairs"
  by (simp add: createBracketDecorations_def createBracketDecorations_loop_props(1))

lemma createBracketDecorations_distinct:
  "distinct (map fst (createBracketDecorations pairs))"
  by (simp add: createBracketDecorations_def createBracketDecorations_loop_props(2))

lemma createBracketDecorations_values:
  "(c, d) \<in> set (createBracketDecorations pairs) \<Longrightarrow> d = DecorationType c"
  using createBracketDecorations_loop_props(3)[of "[]" pairs]
  by (auto simp: createBracketDecorations_def)

lemma createBracketDecorations_member:
  "(c, d) \<in> set (createBracketDecorations pairs) \<longleftrightarrow> c \<in> configuredColors pairs \<and> d = DecorationType c"
proof
  assume "(c, d) \<in> set (createBracketDecorations pairs)"
  then show "c \<in> configuredColors pairs \<and> d = DecorationType c"
    using createBracketDecorations_keys[of pairs] createBracketDecorations_values[of c d pairs]
    by (metis fst_conv image_eqI)
next
  assume a: "c \<in> configuredColors pairs \<and> d = DecorationType c"
  then obtain x where "x \<in> set (createBracketDecorations pairs)" "fst x = c"
    using createBracketDecorations_keys[of pairs] by (metis imageE)
  then show "(c, d) \<in> set (createBracketDecorations pairs)"
    using a createBracketDecorations_values[of "fst x" "snd x" pairs] by (metis prod.collapse)
qed

lemma Settings_constructor_Inr:
  assumes "Settings_constructor languageID configuration = Inr st"
  shows "bracketDecorations st = createBracketDecorations (bracketPairs st)"
    and "\<not> isDisposed st"
    and "readBracketPairs (colorMode st) configuration = Inr (bracketPairs st)"
    and "createRegex (bracketPairs st) False = Inr (regexNonExact st)"
    and "typeof (configuration ''timeOut'') = TyNumber"
  using assms
  by (auto simp: Settings_constructor_def Let_def split: if_splits sum.splits option.splits)

subsection \<open>The calls of a pass and what the editors show\<close>

lemma decorationCalls_member:
  "call \<in> set (decorationCalls decorations colorMap editors) \<longleftrightarrow>
     (\<exists>color decoration editor.
        (color, decoration) \<in> set decorations \<and> color \<noteq> JStr [] \<and> editor \<in> set editors
        \<and> call = (editorId editor, decoration, rangesFor colorMap color))"
  by (auto simp: decorationCalls_def rangesFor_def split: if_splits)

lemma updateDecorations_rendered_calls:
  assumes "updateDecorations ext (this, w) = ((this', w'), Rendered)"
  shows "setDecorationsCalls w' = setDecorationsCalls w
           @ decorationCalls (bracketDecorations (settings this)) (reduceColorRanges ext (lines this'))
               (filter (\<lambda>e. document this = editorDocument e) (visibleTextEditors w))"
  using assms
  by (auto simp: updateDecorations_def Let_def colorDecorations_def
      split: if_splits tokenized.splits prod.splits option.splits dest: addPositions_fields)

lemma find_app:
  "List.find P (xs @ ys) = (case List.find P xs of None \<Rightarrow> List.find P ys | Some x \<Rightarrow> Some x)"
  by (induction xs) auto

lemma find_Some_member: "List.find P xs = Some x \<Longrightarrow> x \<in> set xs \<and> P x"
  by (induction xs) (auto split: if_splits)

lemma rendered_new_calls:
  assumes "setDecorationsCalls w' = setDecorationsCalls w @ new"
  shows "(\<forall>c \<in> set new. \<not> (fst c = e \<and> fst (snd c) = d)) \<Longrightarrow> rendered w' e d = rendered w e d"
    and "(e, d, rs) \<in> set new \<Longrightarrow> (\<forall>c \<in> set new. fst c = e \<and> fst (snd c) = d \<longrightarrow> snd (snd c) = rs)
           \<Longrightarrow> rendered w' e d = Some rs"
proof -
  let ?P = "\<lambda>c. fst c = e \<and> fst (snd c) = d"
  have r: "rendered w' e d =
     (case List.find ?P (rev new) of
        Some c \<Rightarrow> Some (snd (snd c))
      | None \<Rightarrow> rendered w e d)"
    using assms by (simp add: rendered_def find_app split: option.splits)
  show "rendered w' e d = rendered w e d" if "\<forall>c \<in> set new. \<not> ?P c"
  proof -
    from that have "List.find ?P (rev new) = None" by (fastforce simp: find_None_iff)
    with r show ?thesis by simp
  qed
  show "rendered w' e d = Some rs"
    if m: "(e, d, rs) \<in> set new" and u: "\<forall>c \<in> set new. ?P c \<longrightarrow> snd (snd c) = rs"
  proof (cases "List.find ?P (rev new)")
    case None
    then have "\<not> ?P (e, d, rs)" using m by (fastforce simp: find_None_iff)
    then show ?thesis by simp
  next
    case (Some c)
    then have "c \<in> set new" "?P c" by (auto dest: find_Some_member)
    with u r Some show ?thesis by simp
  qed
qed

lemma parse_cong:
  "lineToUpdateWhenTimeoutEnds this = lineToUpdateWhenTimeoutEnds that \<Longrightarrow> settings this = settings that \<Longrightarrow>
     parseToken this t l c ps = parseToken that t l c ps"
  "lineToUpdateWhenTimeoutEnds this = lineToUpdateWhenTimeoutEnds that \<Longrightarrow> settings this = settings that \<Longrightarrow>
     parseTokenOrStringArray this ts l c ps = parseTokenOrStringArray that ts l c ps"
  by (induction this t l c ps and this ts l c ps rule: parseToken_parseTokenOrStringArray.induct)
     (auto split: prod.splits)

lemma exampleSettings_constructed:
  "Settings_constructor ''typescript'' (exampleConfiguration examplePairColors delay) = Inr (exampleSettings delay)"
  by code_simp

lemma decorationCalls_empty_map:
  "call \<in> set (decorationCalls decorations [] editors) \<Longrightarrow> snd (snd call) = []"
  by (auto simp: decorationCalls_member rangesFor_def)

lemma updateDecorations_no_positions:
  assumes "filter (\<lambda>e. document this = editorDocument e) (visibleTextEditors w) \<noteq> []"
    and "tokenize ext (getText w) = Tokenized tokens"
    and "snd (parseTokenOrStringArray this tokens 0 0 []) = []"
    and "lineToUpdateWhenTimeoutEnds this = 0 \<or> lines this = []"
  shows "updateDecorations ext (this, w) =
           ((this\<lparr> lines := [], lineToUpdateWhenTimeoutEnds := \<infinity> \<rparr>,
             w\<lparr> setDecorationsCalls := setDecorationsCalls w
                   @ decorationCalls (bracketDecorations (settings this)) []
                       (filter (\<lambda>e. document this = editorDocument e) (visibleTextEditors w)) \<rparr>),
            Rendered)"
proof -
  let ?this1 = "this\<lparr> lines := splice_lines (lines this) (lineToUpdateWhenTimeoutEnds this) \<rparr>"
  have sp: "splice_lines (lines this) (lineToUpdateWhenTimeoutEnds this) = []"
    using assms(4)
    by (cases "lineToUpdateWhenTimeoutEnds this")
       (auto simp: splice_lines_enat splice_lines_infinity zero_enat_def)
  have "parseTokenOrStringArray ?this1 tokens 0 0 [] = parseTokenOrStringArray this tokens 0 0 []"
    by (rule parse_cong(2)) simp_all
  with assms(3) have ps: "snd (parseTokenOrStringArray ?this1 tokens 0 0 []) = []" by simp
  show ?thesis
    using assms(1,2) ps sp
    by (simp add: updateDecorations_def Let_def colorDecorations_def reduceColorRanges_def)
qed

subsection \<open>Passes that agree\<close>







subsection \<open>Document order\<close>





subsection \<open>The timer\<close>

lemma trigger_immediate:
  assumes "\<not> isDisposed (settings this)" and "\<not> 0 < timeOutLength (settings this)"
  shows "triggerUpdateDecorations ext (this, w)
           = (fst (updateDecorations ext (this, w)), Some (snd (updateDecorations ext (this, w))))"
  using assms by (simp add: triggerUpdateDecorations_def split: prod.splits)

lemma trigger_deferred:
  assumes "\<not> isDisposed (settings this)" and "0 < timeOutLength (settings this)"
  shows "triggerUpdateDecorations ext (this, w)
           = ((this\<lparr> updateDecorationTimeout := Some (timersCreated w) \<rparr>,
               w\<lparr> activeTimers :=
                    filter (\<lambda>t. Some (fst t) \<noteq> updateDecorationTimeout this) (activeTimers w)
                      @ [(timersCreated w, timeOutLength (settings this))],
                  timersCreated := Suc (timersCreated w) \<rparr>), None)"
  using assms
  by (cases "updateDecorationTimeout this")
     (simp_all add: triggerUpdateDecorations_def setTimeout_def clearTimeout_def)

subsection \<open>The pair configuration\<close>

declare show_nat.simps [simp del]


















section \<open>The claims\<close>

subsection \<open>C1: the lowest dirty line\<close>

text \<open>
  C1 as stated says that the marker starts at a sentinel beyond any valid line index.
  The field is initialised to 0, which is the first line of every document: the marker
  of a new object is not beyond line 0.
\<close>

theorem marker_initially_zero_counterexample:
  "\<not> enat 0 < lineToUpdateWhenTimeoutEnds (exampleDecoration 0)"
  by (simp add: exampleDecoration_def DocumentDecoration_constructor_def zero_enat_def)

text \<open>
  C1, amended. The marker \<open>lineToUpdateWhenTimeoutEnds\<close> of a new object is 0, so the
  first pass analyses the whole document. An edit notification sets it to the minimum
  of its value and the starting lines of the changes, so it is never raised. A pass
  that reaches the renderer resets it to \<open>Infinity\<close>, which lies beyond every line
  index.
\<close>

theorem marker_lifecycle:
  "lineToUpdateWhenTimeoutEnds (DocumentDecoration_constructor doc st) = 0
   \<and> lineToUpdateWhenTimeoutEnds (updateLowestLineNumber this cs) =
       Min (insert (lineToUpdateWhenTimeoutEnds this) ((\<lambda>c. enat (line (start (changeRange c)))) ` set cs))
   \<and> lineToUpdateWhenTimeoutEnds (updateLowestLineNumber this cs) \<le> lineToUpdateWhenTimeoutEnds this
   \<and> (updateDecorations ext (this, w) = ((this', w'), Rendered) \<longrightarrow>
        lineToUpdateWhenTimeoutEnds this' = \<infinity> \<and> (\<forall>n. enat n < lineToUpdateWhenTimeoutEnds this'))"
  by (simp add: DocumentDecoration_constructor_def updateLowestLineNumber_marker
      updateDecorations_rendered_marker del: Min_insert)

text \<open>A new object, two changes on lines 3 and 1 with nothing pending, and a pass over a
  one-line document.\<close>

theorem marker_lifecycle_witness:
  "lineToUpdateWhenTimeoutEnds (exampleDecoration 0) = 0
   \<and> lineToUpdateWhenTimeoutEnds
        (updateLowestLineNumber ((exampleDecoration 0)\<lparr> lineToUpdateWhenTimeoutEnds := \<infinity> \<rparr>)
           [exampleChange 3, exampleChange 1]) = enat 1
   \<and> snd (updateDecorations exampleCollaborators (exampleDecoration 0, exampleWorld [''(a)''])) = Rendered
   \<and> lineToUpdateWhenTimeoutEnds
        (fst (fst (updateDecorations exampleCollaborators (exampleDecoration 0, exampleWorld [''(a)''])))) = \<infinity>"
proof -
  let ?X = "updateDecorations exampleCollaborators (exampleDecoration 0, exampleWorld [''(a)''])"
  have r: "snd ?X = Rendered" by code_simp
  have eq: "?X = ((fst (fst ?X), snd (fst ?X)), Rendered)"
    using r by (metis prod.collapse)
  from marker_lifecycle[where doc = 7 and st = "exampleSettings 0"
      and this = "(exampleDecoration 0)\<lparr> lineToUpdateWhenTimeoutEnds := \<infinity> \<rparr>"
      and cs = "[exampleChange 3, exampleChange 1]"]
  have a: "lineToUpdateWhenTimeoutEnds
        (updateLowestLineNumber ((exampleDecoration 0)\<lparr> lineToUpdateWhenTimeoutEnds := \<infinity> \<rparr>)
           [exampleChange 3, exampleChange 1]) = enat 1"
    by (simp add: exampleChange_def)
  from marker_lifecycle[where doc = 7 and st = "exampleSettings 0"
      and ext = exampleCollaborators and this = "exampleDecoration 0" and w = "exampleWorld [''(a)'']"
      and this' = "fst (fst ?X)" and w' = "snd (fst ?X)" and cs = "[]"] eq
  have b: "lineToUpdateWhenTimeoutEnds (exampleDecoration 0) = 0 \<and> lineToUpdateWhenTimeoutEnds (fst (fst ?X)) = \<infinity>"
    unfolding exampleDecoration_def by blast
  from a b r show ?thesis by simp
qed

subsection \<open>C2: a tokenizer that throws\<close>

text \<open>
  C2. When an editor shows the document and the tokenizer throws, the pass ends
  normally with the error logged on the console, makes no call of \<open>setDecorations\<close>, so
  what every editor shows for every decoration type is what it showed before, and
  leaves the marker as it was: it is not reset to \<open>Infinity\<close>.
\<close>

theorem tokenizer_failure_aborts_pass:
  assumes "filter (\<lambda>e. document this = editorDocument e) (visibleTextEditors w) \<noteq> []"
    and "tokenize ext (getText w) = Throws err"
    and "updateDecorations ext (this, w) = ((this', w'), r)"
  shows "r = TokenizeThrew
       \<and> console w' = console w @ [WarnError err]
       \<and> setDecorationsCalls w' = setDecorationsCalls w
       \<and> rendered w' = rendered w
       \<and> lineToUpdateWhenTimeoutEnds this' = lineToUpdateWhenTimeoutEnds this"
  using assms(3) unfolding updateDecorations_throws[OF assms(1,2)]
  by (auto simp: rendered_def fun_eq_iff)

text \<open>A pass with the marker at line 1, one earlier call for Gold and a tokenizer that
  throws.\<close>

theorem tokenizer_failure_aborts_pass_witness:
  "snd (updateDecorations failingCollaborators
          ((exampleDecoration 0)\<lparr> lineToUpdateWhenTimeoutEnds := enat 1 \<rparr>,
           (exampleWorld [''('', '')''])\<lparr> setDecorationsCalls := [(1, DecorationType (JStr ''Gold''), [exampleRange 0 0])] \<rparr>))
     = TokenizeThrew
   \<and> console (snd (fst (updateDecorations failingCollaborators
          ((exampleDecoration 0)\<lparr> lineToUpdateWhenTimeoutEnds := enat 1 \<rparr>,
           (exampleWorld [''('', '')''])\<lparr> setDecorationsCalls := [(1, DecorationType (JStr ''Gold''), [exampleRange 0 0])] \<rparr>))))
     = [WarnError ''no grammar'']
   \<and> setDecorationsCalls (snd (fst (updateDecorations failingCollaborators
          ((exampleDecoration 0)\<lparr> lineToUpdateWhenTimeoutEnds := enat 1 \<rparr>,
           (exampleWorld [''('', '')''])\<lparr> setDecorationsCalls := [(1, DecorationType (JStr ''Gold''), [exampleRange 0 0])] \<rparr>))))
     = [(1, DecorationType (JStr ''Gold''), [exampleRange 0 0])]
   \<and> lineToUpdateWhenTimeoutEnds (fst (fst (updateDecorations failingCollaborators
          ((exampleDecoration 0)\<lparr> lineToUpdateWhenTimeoutEnds := enat 1 \<rparr>,
           (exampleWorld [''('', '')''])\<lparr> setDecorationsCalls := [(1, DecorationType (JStr ''Gold''), [exampleRange 0 0])] \<rparr>))))
     = enat 1"
proof -
  let ?this = "(exampleDecoration 0)\<lparr> lineToUpdateWhenTimeoutEnds := enat 1 \<rparr>"
  let ?w = "(exampleWorld [''('', '')''])\<lparr> setDecorationsCalls := [(1, DecorationType (JStr ''Gold''), [exampleRange 0 0])] \<rparr>"
  let ?X = "updateDecorations failingCollaborators (?this, ?w)"
  have e: "filter (\<lambda>e. document ?this = editorDocument e) (visibleTextEditors ?w) \<noteq> []"
    by (simp add: exampleDecoration_def DocumentDecoration_constructor_def exampleWorld_def)
  have t: "tokenize failingCollaborators (getText ?w) = Throws ''no grammar''"
    by (simp add: failingCollaborators_def)
  have x: "?X = ((fst (fst ?X), snd (fst ?X)), snd ?X)" by simp
  from tokenizer_failure_aborts_pass[OF e t x]
  show ?thesis by (simp add: exampleWorld_def)
qed

subsection \<open>C3: the empty document and the failed pass\<close>

text \<open>
  C3 as stated says that a pass whose tokenization fails hands the renderer a mapping
  from every color to no ranges. Such a pass hands the renderer nothing: after a first
  pass has colored a bracket, a pass in which the tokenizer throws makes no call, and
  the editor still shows the range of the first pass.
\<close>

theorem failed_pass_keeps_highlights_counterexample:
  "snd exampleFirstPass = Rendered
   \<and> rendered (snd (fst exampleFirstPass)) 1 (DecorationType (JStr ''Gold'')) = Some [exampleRange 0 0]
   \<and> snd exampleFailedPass = TokenizeThrew
   \<and> setDecorationsCalls (snd (fst exampleFailedPass)) = setDecorationsCalls (snd (fst exampleFirstPass))
   \<and> rendered (snd (fst exampleFailedPass)) 1 (DecorationType (JStr ''Gold'')) = Some [exampleRange 0 0]"
  by code_simp

text \<open>
  C3, amended. Let an editor show the document. When the tokenizer throws, the pass
  makes no call of \<open>setDecorations\<close> and every editor shows what it showed. When the
  tokenizer succeeds and the position mapper finds no occurrence, as in an empty
  document, and the pass starts from line 0 or from an empty cache, the pass reaches
  the renderer, every call it makes carries the empty array, and for every decoration
  of the settings whose color is not the empty string it makes such a call for the
  editor, which then shows no range for it.
\<close>

theorem pass_without_occurrences_clears_colors:
  assumes "e \<in> set (visibleTextEditors w)" and "editorDocument e = document this"
    and "updateDecorations ext (this, w) = ((this', w'), r)"
  shows "(tokenize ext (getText w) = Throws err \<longrightarrow>
            r = TokenizeThrew \<and> setDecorationsCalls w' = setDecorationsCalls w \<and> rendered w' = rendered w)
       \<and> (tokenize ext (getText w) = Tokenized tokens
            \<and> snd (parseTokenOrStringArray this tokens 0 0 []) = []
            \<and> (lineToUpdateWhenTimeoutEnds this = 0 \<or> lines this = []) \<longrightarrow>
            r = Rendered
            \<and> (\<forall>call \<in> set (drop (length (setDecorationsCalls w)) (setDecorationsCalls w')). snd (snd call) = [])
            \<and> (\<forall>cd \<in> set (bracketDecorations (settings this)). fst cd \<noteq> JStr [] \<longrightarrow>
                  (editorId e, snd cd, []) \<in> set (drop (length (setDecorationsCalls w)) (setDecorationsCalls w'))
                  \<and> rendered w' (editorId e) (snd cd) = Some []))"
proof -
  let ?eds = "filter (\<lambda>e. document this = editorDocument e) (visibleTextEditors w)"
  have ed: "e \<in> set ?eds" using assms(1,2) by simp
  then have ne: "?eds \<noteq> []" by (metis empty_iff list.set(1))
  have a: "r = TokenizeThrew \<and> setDecorationsCalls w' = setDecorationsCalls w \<and> rendered w' = rendered w"
    if "tokenize ext (getText w) = Throws err"
    using assms(3) unfolding updateDecorations_throws[OF ne that]
    by (auto simp: rendered_def fun_eq_iff)
  have b: "r = Rendered
            \<and> (\<forall>call \<in> set (drop (length (setDecorationsCalls w)) (setDecorationsCalls w')). snd (snd call) = [])
            \<and> (\<forall>cd \<in> set (bracketDecorations (settings this)). fst cd \<noteq> JStr [] \<longrightarrow>
                  (editorId e, snd cd, []) \<in> set (drop (length (setDecorationsCalls w)) (setDecorationsCalls w'))
                  \<and> rendered w' (editorId e) (snd cd) = Some [])"
    if t: "tokenize ext (getText w) = Tokenized tokens"
      and p: "snd (parseTokenOrStringArray this tokens 0 0 []) = []"
      and m: "lineToUpdateWhenTimeoutEnds this = 0 \<or> lines this = []"
  proof -
    let ?new = "decorationCalls (bracketDecorations (settings this)) [] ?eds"
    from assms(3) have r: "r = Rendered" and calls: "setDecorationsCalls w' = setDecorationsCalls w @ ?new"
      unfolding updateDecorations_no_positions[OF ne t p m] by auto
    have all: "\<forall>call \<in> set ?new. snd (snd call) = []"
      using decorationCalls_empty_map by blast
    have each: "(editorId e, snd cd, []) \<in> set ?new \<and> rendered w' (editorId e) (snd cd) = Some []"
      if cd: "cd \<in> set (bracketDecorations (settings this))" "fst cd \<noteq> JStr []" for cd
    proof -
      have mem: "(editorId e, snd cd, []) \<in> set ?new"
        unfolding decorationCalls_member using cd ed
        by (intro exI[of _ "fst cd"] exI[of _ "snd cd"] exI[of _ e]) (simp add: rangesFor_def)
      from all have "\<forall>c \<in> set ?new. fst c = editorId e \<and> fst (snd c) = snd cd \<longrightarrow> snd (snd c) = []"
        by blast
      from rendered_new_calls(2)[OF calls mem this] mem show ?thesis by simp
    qed
    from r calls all each show ?thesis by simp
  qed
  from a b show ?thesis by blast
qed

text \<open>An empty document in an editor that showed a Gold range, with the example
  tokenizer and with the one that throws.\<close>

theorem pass_without_occurrences_clears_colors_witness:
  "snd (updateDecorations exampleCollaborators
          (exampleDecoration 0,
           (exampleWorld [[]])\<lparr> setDecorationsCalls := [(1, DecorationType (JStr ''Gold''), [exampleRange 0 0])] \<rparr>))
     = Rendered
   \<and> (1, DecorationType (JStr ''Gold''), [])
       \<in> set (drop 1 (setDecorationsCalls (snd (fst (updateDecorations exampleCollaborators
          (exampleDecoration 0,
           (exampleWorld [[]])\<lparr> setDecorationsCalls := [(1, DecorationType (JStr ''Gold''), [exampleRange 0 0])] \<rparr>))))))
   \<and> rendered (snd (fst (updateDecorations exampleCollaborators
          (exampleDecoration 0,
           (exampleWorld [[]])\<lparr> setDecorationsCalls := [(1, DecorationType (JStr ''Gold''), [exampleRange 0 0])] \<rparr>))))
        1 (DecorationType (JStr ''Gold''))
     = Some []
   \<and> rendered (snd (fst (updateDecorations failingCollaborators
          (exampleDecoration 0,
           (exampleWorld [[]])\<lparr> setDecorationsCalls := [(1, DecorationType (JStr ''Gold''), [exampleRange 0 0])] \<rparr>))))
     = rendered ((exampleWorld [[]])\<lparr> setDecorationsCalls := [(1, DecorationType (JStr ''Gold''), [exampleRange 0 0])] \<rparr>)"
proof -
  let ?dd = "exampleDecoration 0"
  let ?w = "(exampleWorld [[]])\<lparr> setDecorationsCalls := [(1, DecorationType (JStr ''Gold''), [exampleRange 0 0])] \<rparr>"
  let ?X = "updateDecorations exampleCollaborators (?dd, ?w)"
  let ?Y = "updateDecorations failingCollaborators (?dd, ?w)"
  let ?e = "\<lparr> editorId = 1, editorDocument = 7 \<rparr>"
  have e: "?e \<in> set (visibleTextEditors ?w)" "editorDocument ?e = document ?dd"
    by (simp_all add: exampleWorld_def exampleDecoration_def DocumentDecoration_constructor_def)
  have x: "?X = ((fst (fst ?X), snd (fst ?X)), snd ?X)" by simp
  have y: "?Y = ((fst (fst ?Y), snd (fst ?Y)), snd ?Y)" by simp
  have t: "tokenize exampleCollaborators (getText ?w) = Tokenized []"
    by (simp add: exampleCollaborators_def exampleTokenize_def getText_def exampleWorld_def)
  have p: "snd (parseTokenOrStringArray ?dd [] 0 0 []) = []" by simp
  have m: "lineToUpdateWhenTimeoutEnds ?dd = 0 \<or> lines ?dd = []"
    by (simp add: exampleDecoration_def DocumentDecoration_constructor_def)
  have g: "(JStr ''Gold'', DecorationType (JStr ''Gold'')) \<in> set (bracketDecorations (settings ?dd))"
    by (simp add: exampleDecoration_def DocumentDecoration_constructor_def exampleSettings_def)
  have f: "tokenize failingCollaborators (getText ?w) = Throws ''no grammar''"
    by (simp add: failingCollaborators_def)
  from pass_without_occurrences_clears_colors[OF e x, of "''no grammar''" "[]"] t p m g
  have a: "snd ?X = Rendered
      \<and> (1, DecorationType (JStr ''Gold''), []) \<in> set (drop 1 (setDecorationsCalls (snd (fst ?X))))
      \<and> rendered (snd (fst ?X)) 1 (DecorationType (JStr ''Gold'')) = Some []"
    by (fastforce simp: exampleWorld_def)
  from pass_without_occurrences_clears_colors[OF e y, of "''no grammar''" "[]"] f
  have b: "rendered (snd (fst ?Y)) = rendered ?w" by blast
  from a b show ?thesis by blast
qed

subsection \<open>C4: every configured color reaches the renderer\<close>

text \<open>
  C4 as stated covers every configured color. A palette may hold the empty string: the
  constructor accepts it and creates a decoration for it, and a pass that reaches the
  renderer makes no call for that decoration.
\<close>

theorem empty_color_missing_counterexample:
  "\<not> isl (Settings_constructor ''typescript''
       (exampleConfiguration (JArr [JStr ''()'', JArr [JStr [], JStr ''Gold''], JStr ''Red'']) 0))
   \<and> JStr [] \<in> configuredColors (bracketPairs emptyColorSettings)
   \<and> snd (updateDecorations exampleCollaborators
             (DocumentDecoration_constructor 7 emptyColorSettings, exampleWorld [''(a)''])) = Rendered
   \<and> DecorationType (JStr []) \<notin> (\<lambda>call. fst (snd call)) ` set (setDecorationsCalls (snd (fst
         (updateDecorations exampleCollaborators
             (DocumentDecoration_constructor 7 emptyColorSettings, exampleWorld [''(a)'']))))) "
  by code_simp

text \<open>
  C4, amended. Let the settings be those the constructor built, and let a pass reach
  the renderer. For every color of a palette and every orphan color other than the
  empty string, and for every visible editor on the document, the pass calls
  \<open>setDecorations\<close> with the decoration of the color and the ranges the lines hold for
  it, the empty array when they hold none; these ranges are what the editor shows for
  the color afterwards.
\<close>

theorem configured_colors_reach_renderer:
  assumes "Settings_constructor languageID configuration = Inr (settings this)"
    and "updateDecorations ext (this, w) = ((this', w'), Rendered)"
    and "c \<in> configuredColors (bracketPairs (settings this))"
    and "c \<noteq> JStr []"
    and "e \<in> set (visibleTextEditors w)"
    and "editorDocument e = document this"
  shows "(editorId e, DecorationType c, rangesFor (reduceColorRanges ext (lines this')) c)
           \<in> set (drop (length (setDecorationsCalls w)) (setDecorationsCalls w'))
       \<and> (map_of (reduceColorRanges ext (lines this')) c = None \<longrightarrow>
            (editorId e, DecorationType c, [])
              \<in> set (drop (length (setDecorationsCalls w)) (setDecorationsCalls w')))
       \<and> rendered w' (editorId e) (DecorationType c) = Some (rangesFor (reduceColorRanges ext (lines this')) c)"
proof -
  let ?decs = "bracketDecorations (settings this)"
  let ?cm = "reduceColorRanges ext (lines this')"
  let ?eds = "filter (\<lambda>e. document this = editorDocument e) (visibleTextEditors w)"
  let ?new = "decorationCalls ?decs ?cm ?eds"
  have decs: "?decs = createBracketDecorations (bracketPairs (settings this))"
    using Settings_constructor_Inr(1)[OF assms(1)] .
  have calls: "setDecorationsCalls w' = setDecorationsCalls w @ ?new"
    using updateDecorations_rendered_calls[OF assms(2)] .
  have cd: "(c, DecorationType c) \<in> set ?decs"
    using assms(3) by (simp add: decs createBracketDecorations_member)
  have ed: "e \<in> set ?eds" using assms(5,6) by simp
  have mem: "(editorId e, DecorationType c, rangesFor ?cm c) \<in> set ?new"
    unfolding decorationCalls_member using cd ed assms(4) by blast
  have uniq: "\<forall>call \<in> set ?new. fst call = editorId e \<and> fst (snd call) = DecorationType c \<longrightarrow>
                snd (snd call) = rangesFor ?cm c"
  proof (intro ballI impI)
    fix call assume m: "call \<in> set ?new" and h: "fst call = editorId e \<and> fst (snd call) = DecorationType c"
    from m obtain color decoration and editor :: TextEditor where
      x: "(color, decoration) \<in> set ?decs" "call = (editorId editor, decoration, rangesFor ?cm color)"
      unfolding decorationCalls_member by blast
    from x(1) have "decoration = DecorationType color"
      by (simp add: decs createBracketDecorations_member)
    with h x(2) have "color = c" by simp
    with x(2) show "snd (snd call) = rangesFor ?cm c" by simp
  qed
  have r: "rendered w' (editorId e) (DecorationType c) = Some (rangesFor ?cm c)"
    using rendered_new_calls(2)[OF calls mem uniq] .
  from mem calls r show ?thesis by (auto simp: rangesFor_def)
qed

text \<open>A first pass over a document that holds one open bracket: Gold gets its range,
  Orchid the empty array.\<close>

theorem configured_colors_reach_renderer_witness:
  "(1, DecorationType (JStr ''Orchid''), [])
     \<in> set (setDecorationsCalls (snd (fst (updateDecorations exampleCollaborators
               (exampleDecoration 0, exampleWorld [''(''])))))
   \<and> rendered (snd (fst (updateDecorations exampleCollaborators
               (exampleDecoration 0, exampleWorld [''(''])))) 1 (DecorationType (JStr ''Orchid'')) = Some []
   \<and> rendered (snd (fst (updateDecorations exampleCollaborators
               (exampleDecoration 0, exampleWorld [''(''])))) 1 (DecorationType (JStr ''Gold''))
       = Some [exampleRange 0 0]"
proof -
  let ?dd = "exampleDecoration 0"
  let ?w = "exampleWorld [''('']"
  let ?X = "updateDecorations exampleCollaborators (?dd, ?w)"
  let ?e = "\<lparr> editorId = 1, editorDocument = 7 \<rparr>"
  have s: "Settings_constructor ''typescript'' (exampleConfiguration examplePairColors 0) = Inr (settings ?dd)"
    by (simp add: exampleSettings_constructed exampleDecoration_def DocumentDecoration_constructor_def)
  have r: "snd ?X = Rendered" by code_simp
  then have x: "?X = ((fst (fst ?X), snd (fst ?X)), Rendered)" by (metis prod.collapse)
  have c: "JStr ''Orchid'' \<in> configuredColors (bracketPairs (settings ?dd))"
          "JStr ''Gold'' \<in> configuredColors (bracketPairs (settings ?dd))"
    by (simp_all add: exampleDecoration_def DocumentDecoration_constructor_def exampleSettings_def configuredColors_def)
  have e: "?e \<in> set (visibleTextEditors ?w)" "editorDocument ?e = document ?dd"
    by (simp_all add: exampleWorld_def exampleDecoration_def DocumentDecoration_constructor_def)
  have m: "map_of (reduceColorRanges exampleCollaborators (lines (fst (fst ?X)))) (JStr ''Orchid'') = None"
    by code_simp
  have g: "rangesFor (reduceColorRanges exampleCollaborators (lines (fst (fst ?X)))) (JStr ''Gold'') = [exampleRange 0 0]"
    by code_simp
  have n: "setDecorationsCalls ?w = []" by (simp add: exampleWorld_def)
  from configured_colors_reach_renderer[OF s x c(1) _ e] m n
  have a: "(1, DecorationType (JStr ''Orchid''), []) \<in> set (setDecorationsCalls (snd (fst ?X)))
        \<and> rendered (snd (fst ?X)) 1 (DecorationType (JStr ''Orchid'')) = Some []"
    by (simp add: rangesFor_def)
  from configured_colors_reach_renderer[OF s x c(2) _ e] g
  have b: "rendered (snd (fst ?X)) 1 (DecorationType (JStr ''Gold'')) = Some [exampleRange 0 0]"
    by simp
  from a b show ?thesis by blast
qed

subsection \<open>C5: the structure of the configuration\<close>




subsection \<open>C6: the debounce timer\<close>

text \<open>
  C6, for an object that is not disposed. With a delay of zero,
  \<open>triggerUpdateDecorations\<close> is the pass itself, run within the call. With a positive
  delay it runs no pass: lines, marker, console and decorations stay as they are, a
  pending timer of the object is cleared, and one new timer with the delay is set, whose
  firing runs the pass. An edit notification that arrives while that timer is pending
  runs no pass either: it clears the timer, which then never fires, sets a new one with
  the delay, and leaves the marker at the minimum of its value and the starting lines
  of the changes, so a marker that was lowered stays lowered.
\<close>

theorem debounce_schedule:
  assumes "\<not> isDisposed (settings this)"
  shows "(timeOutLength (settings this) = 0 \<longrightarrow>
            triggerUpdateDecorations ext (this, w)
              = (fst (updateDecorations ext (this, w)), Some (snd (updateDecorations ext (this, w)))))
       \<and> (0 < timeOutLength (settings this)
            \<and> triggerUpdateDecorations ext (this, w) = ((this1, w1), r1) \<longrightarrow>
            r1 = None
            \<and> lines this1 = lines this
            \<and> lineToUpdateWhenTimeoutEnds this1 = lineToUpdateWhenTimeoutEnds this
            \<and> setDecorationsCalls w1 = setDecorationsCalls w
            \<and> console w1 = console w
            \<and> updateDecorationTimeout this1 = Some (timersCreated w)
            \<and> activeTimers w1 =
                 filter (\<lambda>t. Some (fst t) \<noteq> updateDecorationTimeout this) (activeTimers w)
                   @ [(timersCreated w, timeOutLength (settings this))]
            \<and> timerFires ext (timersCreated w) (this1, w1)
                 = (fst (updateDecorations ext (this1, clearTimeout (timersCreated w) w1)),
                    Some (snd (updateDecorations ext (this1, clearTimeout (timersCreated w) w1)))))
       \<and> (0 < timeOutLength (settings this)
            \<and> triggerUpdateDecorations ext (this, w) = ((this1, w1), r1)
            \<and> onDidChangeTextDocument ext cs (this1, w1) = ((this2, w2), r2) \<longrightarrow>
            r2 = None
            \<and> timersCreated w \<notin> fst ` set (activeTimers w2)
            \<and> timerFires ext (timersCreated w) (this2, w2) = ((this2, w2), None)
            \<and> updateDecorationTimeout this2 = Some (timersCreated w1)
            \<and> timersCreated w1 \<noteq> timersCreated w
            \<and> (timersCreated w1, timeOutLength (settings this)) \<in> set (activeTimers w2)
            \<and> lineToUpdateWhenTimeoutEnds this2 =
                 Min (insert (lineToUpdateWhenTimeoutEnds this1)
                        ((\<lambda>c. enat (line (start (changeRange c)))) ` set cs))
            \<and> lineToUpdateWhenTimeoutEnds this2 \<le> lineToUpdateWhenTimeoutEnds this1
            \<and> lines this2 = lines this1
            \<and> setDecorationsCalls w2 = setDecorationsCalls w1)"
proof -
  have A: "triggerUpdateDecorations ext (this, w)
              = (fst (updateDecorations ext (this, w)), Some (snd (updateDecorations ext (this, w))))"
    if "timeOutLength (settings this) = 0"
    using trigger_immediate[OF assms, of ext w] that by simp
  have B: "r1 = None
            \<and> lines this1 = lines this
            \<and> lineToUpdateWhenTimeoutEnds this1 = lineToUpdateWhenTimeoutEnds this
            \<and> setDecorationsCalls w1 = setDecorationsCalls w
            \<and> console w1 = console w
            \<and> updateDecorationTimeout this1 = Some (timersCreated w)
            \<and> activeTimers w1 =
                 filter (\<lambda>t. Some (fst t) \<noteq> updateDecorationTimeout this) (activeTimers w)
                   @ [(timersCreated w, timeOutLength (settings this))]
            \<and> timerFires ext (timersCreated w) (this1, w1)
                 = (fst (updateDecorations ext (this1, clearTimeout (timersCreated w) w1)),
                    Some (snd (updateDecorations ext (this1, clearTimeout (timersCreated w) w1))))"
    if "0 < timeOutLength (settings this)" "triggerUpdateDecorations ext (this, w) = ((this1, w1), r1)"
    using that(2) unfolding trigger_deferred[OF assms that(1)]
    by (auto simp: timerFires_def split: prod.splits)
  have C: "r2 = None
            \<and> timersCreated w \<notin> fst ` set (activeTimers w2)
            \<and> timerFires ext (timersCreated w) (this2, w2) = ((this2, w2), None)
            \<and> updateDecorationTimeout this2 = Some (timersCreated w1)
            \<and> timersCreated w1 \<noteq> timersCreated w
            \<and> (timersCreated w1, timeOutLength (settings this)) \<in> set (activeTimers w2)
            \<and> lineToUpdateWhenTimeoutEnds this2 =
                 Min (insert (lineToUpdateWhenTimeoutEnds this1)
                        ((\<lambda>c. enat (line (start (changeRange c)))) ` set cs))
            \<and> lineToUpdateWhenTimeoutEnds this2 \<le> lineToUpdateWhenTimeoutEnds this1
            \<and> lines this2 = lines this1
            \<and> setDecorationsCalls w2 = setDecorationsCalls w1"
    if t: "0 < timeOutLength (settings this)" "triggerUpdateDecorations ext (this, w) = ((this1, w1), r1)"
      and o: "onDidChangeTextDocument ext cs (this1, w1) = ((this2, w2), r2)"
  proof -
    let ?u = "updateLowestLineNumber this1 cs"
    from t(2) have s1: "settings this1 = settings this" "updateDecorationTimeout this1 = Some (timersCreated w)"
      "timersCreated w1 = Suc (timersCreated w)"
      unfolding trigger_deferred[OF assms t(1)] by auto
    have su: "settings ?u = settings this" "updateDecorationTimeout ?u = Some (timersCreated w)"
      "lines ?u = lines this1"
      using s1 by (simp_all add: updateLowestLineNumber_fields)
    have nd: "\<not> isDisposed (settings ?u)" "0 < timeOutLength (settings ?u)"
      using su assms t(1) by simp_all
    from o have o': "triggerUpdateDecorations ext (?u, w1) = ((this2, w2), r2)"
      by (simp add: onDidChangeTextDocument_def)
    from o' have r: "r2 = None" and t2: "this2 = ?u\<lparr> updateDecorationTimeout := Some (timersCreated w1) \<rparr>"
      and w2: "w2 = w1\<lparr> activeTimers :=
                    filter (\<lambda>t. Some (fst t) \<noteq> updateDecorationTimeout ?u) (activeTimers w1)
                      @ [(timersCreated w1, timeOutLength (settings ?u))],
                  timersCreated := Suc (timersCreated w1) \<rparr>"
      unfolding trigger_deferred[OF nd] by auto
    have gone: "timersCreated w \<notin> fst ` set (activeTimers w2)"
      unfolding w2 using su(2) s1(3) by auto
    then have fire: "timerFires ext (timersCreated w) (this2, w2) = ((this2, w2), None)"
      by (simp add: timerFires_def)
    have mk: "lineToUpdateWhenTimeoutEnds this2 =
                 Min (insert (lineToUpdateWhenTimeoutEnds this1)
                        ((\<lambda>c. enat (line (start (changeRange c)))) ` set cs))"
      unfolding t2 by (simp add: updateLowestLineNumber_marker del: Min_insert)
    have le: "lineToUpdateWhenTimeoutEnds this2 \<le> lineToUpdateWhenTimeoutEnds this1"
      unfolding t2 by (simp add: updateLowestLineNumber_le)
    from r gone fire mk le t2 w2 su s1 show ?thesis by simp
  qed
  from A B C show ?thesis by blast
qed

text \<open>Delay 0 runs the pass at once. With delay 50 the first edit sets timer 0; the second
  edit clears it and sets timer 1, with the marker lowered from 5 to 3; timer 0 never
  runs a pass, timer 1 does.\<close>

theorem debounce_schedule_witness:
  "snd (triggerUpdateDecorations exampleCollaborators (exampleDecoration 0, exampleWorld [''('']))
     = Some Rendered
   \<and> snd exampleFirstEdit = None
   \<and> activeTimers (snd (fst exampleFirstEdit)) = [(0, 50)]
   \<and> lineToUpdateWhenTimeoutEnds (fst (fst exampleFirstEdit)) = enat 5
   \<and> snd exampleSecondEdit = None
   \<and> activeTimers (snd (fst exampleSecondEdit)) = [(1, 50)]
   \<and> lineToUpdateWhenTimeoutEnds (fst (fst exampleSecondEdit)) = enat 3
   \<and> timerFires exampleCollaborators 0 (fst exampleSecondEdit) = (fst exampleSecondEdit, None)
   \<and> snd (timerFires exampleCollaborators 1 (fst exampleSecondEdit)) = Some Rendered"
proof -
  let ?u = "updateLowestLineNumber exampleIdle [exampleChange 5]"
  let ?w = "exampleWorld [''('']"
  let ?A = "exampleFirstEdit"
  let ?B = "exampleSecondEdit"
  have nd0: "\<not> isDisposed (settings (exampleDecoration 0))"
    by (simp add: exampleDecoration_def DocumentDecoration_constructor_def exampleSettings_def)
  have z: "timeOutLength (settings (exampleDecoration 0)) = 0"
    by (simp add: exampleDecoration_def DocumentDecoration_constructor_def exampleSettings_def)
  have r0: "snd (updateDecorations exampleCollaborators (exampleDecoration 0, ?w)) = Rendered"
    by code_simp
  from debounce_schedule[OF nd0, of exampleCollaborators ?w] z r0
  have a: "snd (triggerUpdateDecorations exampleCollaborators (exampleDecoration 0, ?w)) = Some Rendered"
    by simp
  have nd: "\<not> isDisposed (settings ?u)"
    by (simp add: updateLowestLineNumber_fields exampleIdle_def exampleDecoration_def
        DocumentDecoration_constructor_def exampleSettings_def)
  have d: "0 < timeOutLength (settings ?u)" "timeOutLength (settings ?u) = 50"
    by (simp_all add: updateLowestLineNumber_fields exampleIdle_def exampleDecoration_def
        DocumentDecoration_constructor_def exampleSettings_def)
  have t: "triggerUpdateDecorations exampleCollaborators (?u, ?w)
             = ((fst (fst ?A), snd (fst ?A)), snd ?A)"
    by (simp add: exampleFirstEdit_def)
  have o: "onDidChangeTextDocument exampleCollaborators [exampleChange 3] (fst (fst ?A), snd (fst ?A))
             = ((fst (fst ?B), snd (fst ?B)), snd ?B)"
    by (simp add: exampleSecondEdit_def)
  note P = debounce_schedule[OF nd, where ext = exampleCollaborators and w = ?w
      and ?this1.0 = "fst (fst ?A)" and ?w1.0 = "snd (fst ?A)" and ?r1.0 = "snd ?A"
      and cs = "[exampleChange 3]"
      and ?this2.0 = "fst (fst ?B)" and ?w2.0 = "snd (fst ?B)" and ?r2.0 = "snd ?B"]
  from P d(1) t have b: "snd ?A = None
      \<and> lineToUpdateWhenTimeoutEnds (fst (fst ?A)) = lineToUpdateWhenTimeoutEnds ?u
      \<and> activeTimers (snd (fst ?A)) =
           filter (\<lambda>t. Some (fst t) \<noteq> updateDecorationTimeout ?u) (activeTimers ?w)
             @ [(timersCreated ?w, timeOutLength (settings ?u))]"
    by blast
  from P d(1) t o have c: "snd ?B = None
      \<and> timerFires exampleCollaborators (timersCreated ?w) (fst (fst ?B), snd (fst ?B))
           = ((fst (fst ?B), snd (fst ?B)), None)
      \<and> lineToUpdateWhenTimeoutEnds (fst (fst ?B)) =
           Min (insert (lineToUpdateWhenTimeoutEnds (fst (fst ?A)))
                  ((\<lambda>c. enat (line (start (changeRange c)))) ` set [exampleChange 3]))"
    by blast
  have m: "lineToUpdateWhenTimeoutEnds ?u = enat 5"
    by (simp add: exampleIdle_def exampleChange_def)
  have e: "activeTimers (snd (fst ?B)) = [(1, 50)]" by code_simp
  have f: "snd (timerFires exampleCollaborators 1 (fst ?B)) = Some Rendered" by code_simp
  from b d(2) m have b': "snd ?A = None \<and> lineToUpdateWhenTimeoutEnds (fst (fst ?A)) = enat 5
      \<and> activeTimers (snd (fst ?A)) = [(0, 50)]"
    by (simp add: exampleWorld_def)
  from c b' have c': "snd ?B = None
      \<and> timerFires exampleCollaborators 0 (fst ?B) = (fst ?B, None)
      \<and> lineToUpdateWhenTimeoutEnds (fst (fst ?B)) = enat 3"
    by (simp add: exampleWorld_def exampleChange_def)
  from a b' c' e f show ?thesis by simp
qed

subsection \<open>C7: the lines below an edit\<close>

text \<open>
  C7. Let \<open>L\<close> be no greater than the starting line of any change of an edit
  notification. The pass that follows, however it ends, leaves in place and unchanged
  every cached line below \<open>L\<close> that was below the marker before the edit; after a
  completed pass the marker is \<open>Infinity\<close>, and that is every cached line below \<open>L\<close>.
  When \<open>L\<close> is the lowest starting line, nothing lower was pending and the pass gets
  past the search for editors, the cached lines from \<open>L\<close> on are discarded: the pass
  does what it would have done with the cache cut at \<open>L\<close>.
\<close>

theorem pass_keeps_lines_below_edit:
  assumes "\<forall>c \<in> set cs. L \<le> line (start (changeRange c))"
    and "updateDecorations ext (updateLowestLineNumber this cs, w) = ((this', w'), r)"
  shows "(i < L \<and> enat i < lineToUpdateWhenTimeoutEnds this \<and> i < length (lines this) \<longrightarrow>
            i < length (lines this') \<and> lines this' ! i = lines this ! i)
       \<and> (lineToUpdateWhenTimeoutEnds this = \<infinity> \<and> i < L \<and> i < length (lines this) \<longrightarrow>
            i < length (lines this') \<and> lines this' ! i = lines this ! i)
       \<and> (r \<noteq> NoEditors \<and> enat L \<le> lineToUpdateWhenTimeoutEnds this
            \<and> L \<in> (\<lambda>c. line (start (changeRange c))) ` set cs \<longrightarrow>
            updateDecorations ext (updateLowestLineNumber (this\<lparr> lines := take L (lines this) \<rparr>) cs, w)
              = ((this', w'), r))"
proof -
  let ?dd1 = "updateLowestLineNumber this cs"
  have ls: "lines ?dd1 = lines this" by (simp add: updateLowestLineNumber_fields)
  have frame: "i < length (lines this') \<and> lines this' ! i = lines this ! i"
    if "i < L" "enat i < lineToUpdateWhenTimeoutEnds this" "i < length (lines this)"
  proof -
    from that(1) assms(1) have "\<forall>c \<in> set cs. i < line (start (changeRange c))" by auto
    from updateLowestLineNumber_gr[OF that(2) this]
    have "enat i < lineToUpdateWhenTimeoutEnds ?dd1" .
    from updateDecorations_frame[OF assms(2) _ this] that ls show ?thesis by simp
  qed
  have disc: "updateDecorations ext (updateLowestLineNumber (this\<lparr> lines := take L (lines this) \<rparr>) cs, w)
              = ((this', w'), r)"
    if ne: "r \<noteq> NoEditors" and m: "enat L \<le> lineToUpdateWhenTimeoutEnds this"
      and mem: "L \<in> (\<lambda>c. line (start (changeRange c))) ` set cs"
  proof -
    have ge: "enat L \<le> lineToUpdateWhenTimeoutEnds ?dd1"
      using m assms(1) by (rule updateLowestLineNumber_ge)
    have eds: "filter (\<lambda>e. document ?dd1 = editorDocument e) (visibleTextEditors w) \<noteq> []"
      using assms(2) ne by (auto simp: updateDecorations_def Let_def split: if_splits)
    from mem have "lineToUpdateWhenTimeoutEnds ?dd1 \<le> enat L"
      by (auto simp: updateLowestLineNumber_marker intro!: Min_le simp del: Min_insert)
    with ge have mk: "lineToUpdateWhenTimeoutEnds ?dd1 = enat L" by simp
    have upd: "updateLowestLineNumber (this\<lparr> lines := take L (lines this) \<rparr>) cs
             = ?dd1\<lparr> lines := take L (lines ?dd1) \<rparr>"
      by (simp add: updateLowestLineNumber_lines_update ls)
    show ?thesis
      unfolding upd using updateDecorations_truncated[OF mk eds, of ext] assms(2) by simp
  qed
  from frame disc show ?thesis by auto
qed

text \<open>Three cached lines and an edit on line 2: line 1 is kept, and the third cached line
  plays no part.\<close>

theorem pass_keeps_lines_below_edit_witness:
  "lines (fst (fst (updateDecorations exampleCollaborators
      (updateLowestLineNumber
         ((exampleDecoration 0)\<lparr> lineToUpdateWhenTimeoutEnds := \<infinity>,
             lines := [exampleCachedLine (JStr ''Gold''), exampleCachedLine (JStr ''Orchid''),
                       exampleCachedLine (JStr ''Red'')] \<rparr>)
         [exampleChange 2],
       exampleWorld [''('', ''('', ''))''])))) ! 1 = exampleCachedLine (JStr ''Orchid'')
   \<and> snd (updateDecorations exampleCollaborators
      (updateLowestLineNumber
         ((exampleDecoration 0)\<lparr> lineToUpdateWhenTimeoutEnds := \<infinity>,
             lines := [exampleCachedLine (JStr ''Gold''), exampleCachedLine (JStr ''Orchid''),
                       exampleCachedLine (JStr ''Red'')] \<rparr>)
         [exampleChange 2],
       exampleWorld [''('', ''('', ''))''])) = Rendered
   \<and> updateDecorations exampleCollaborators
      (updateLowestLineNumber
         ((exampleDecoration 0)\<lparr> lineToUpdateWhenTimeoutEnds := \<infinity>,
             lines := [exampleCachedLine (JStr ''Gold''), exampleCachedLine (JStr ''Orchid'')] \<rparr>)
         [exampleChange 2],
       exampleWorld [''('', ''('', ''))''])
     = updateDecorations exampleCollaborators
      (updateLowestLineNumber
         ((exampleDecoration 0)\<lparr> lineToUpdateWhenTimeoutEnds := \<infinity>,
             lines := [exampleCachedLine (JStr ''Gold''), exampleCachedLine (JStr ''Orchid''),
                       exampleCachedLine (JStr ''Red'')] \<rparr>)
         [exampleChange 2],
       exampleWorld [''('', ''('', ''))''])"
proof -
  let ?dd = "(exampleDecoration 0)\<lparr> lineToUpdateWhenTimeoutEnds := \<infinity>,
             lines := [exampleCachedLine (JStr ''Gold''), exampleCachedLine (JStr ''Orchid''),
                       exampleCachedLine (JStr ''Red'')] \<rparr>"
  let ?w = "exampleWorld [''('', ''('', ''))'']"
  let ?X = "updateDecorations exampleCollaborators (updateLowestLineNumber ?dd [exampleChange 2], ?w)"
  have c: "\<forall>c \<in> set [exampleChange 2]. 2 \<le> line (start (changeRange c))"
    by (simp add: exampleChange_def)
  have m: "lineToUpdateWhenTimeoutEnds ?dd = \<infinity>" by simp
  have x: "?X = ((fst (fst ?X), snd (fst ?X)), snd ?X)" by simp
  have r: "snd ?X = Rendered" by code_simp
  have l: "2 \<in> (\<lambda>c. line (start (changeRange c))) ` set [exampleChange 2]"
    by (simp add: exampleChange_def)
  from pass_keeps_lines_below_edit[OF c x, of 1] r l m
  have "lines (fst (fst ?X)) ! 1 = lines ?dd ! 1
      \<and> updateDecorations exampleCollaborators
           (updateLowestLineNumber (?dd\<lparr> lines := take 2 (lines ?dd) \<rparr>) [exampleChange 2], ?w) = ?X"
    by simp
  with r show ?thesis by simp
qed

subsection \<open>C8: determinism\<close>



subsection \<open>C9: occurrences below the marker\<close>

text \<open>
  C9. Every occurrence that the position mapper records lies on a line at or above
  the marker, so punctuation on lower lines yields no occurrence; and a pass leaves the
  colors and ranges of every cached line below the marker as they were.
\<close>

theorem occurrences_only_at_or_above_marker:
  "(b \<in> set (snd (parseTokenOrStringArray this tokens lineIndex charIndex [])) \<longrightarrow>
      lineToUpdateWhenTimeoutEnds this \<le> enat (line (start (bracketRange b))))
   \<and> (updateDecorations ext (this, w) = ((this', w'), r)
        \<and> i < length (lines this) \<and> enat i < lineToUpdateWhenTimeoutEnds this \<longrightarrow>
      i < length (lines this') \<and> colorRanges ext (lines this' ! i) = colorRanges ext (lines this ! i))"
proof -
  have "\<forall>b \<in> set (snd (parseTokenOrStringArray this tokens lineIndex charIndex [])).
          lineToUpdateWhenTimeoutEnds this \<le> enat (line (start (bracketRange b)))"
    by (rule parse_positions_marker(2)) simp
  then show ?thesis using updateDecorations_frame[of ext this w this' w' r i] by auto
qed

text \<open>With the marker at line 1, the bracket of line 0 is not recorded and the bracket of
  line 1 is; the cached line 0 keeps its colors through a pass.\<close>

theorem occurrences_only_at_or_above_marker_witness:
  "foundBracketAt 1 0 '')'' \<in> set (snd (parseTokenOrStringArray
        ((exampleDecoration 0)\<lparr> lineToUpdateWhenTimeoutEnds := enat 1 \<rparr>)
        [IToken (Token ''punctuation'' (CString ''('')), IString [CHR 0x0A],
         IToken (Token ''punctuation'' (CString '')''))] 0 0 []))
   \<and> foundBracketAt 0 0 ''('' \<notin> set (snd (parseTokenOrStringArray
        ((exampleDecoration 0)\<lparr> lineToUpdateWhenTimeoutEnds := enat 1 \<rparr>)
        [IToken (Token ''punctuation'' (CString ''('')), IString [CHR 0x0A],
         IToken (Token ''punctuation'' (CString '')''))] 0 0 []))
   \<and> lineToUpdateWhenTimeoutEnds ((exampleDecoration 0)\<lparr> lineToUpdateWhenTimeoutEnds := enat 1 \<rparr>)
        \<le> enat (line (start (bracketRange (foundBracketAt 1 0 '')''))))
   \<and> colorRanges exampleCollaborators
        (lines (fst (fst (updateDecorations exampleCollaborators
           ((exampleDecoration 0)\<lparr> lineToUpdateWhenTimeoutEnds := enat 1,
                                    lines := [exampleCachedLine (JStr ''Gold''), exampleCachedLine (JStr ''Orchid'')] \<rparr>,
            exampleWorld [''('', '')''])))) ! 0)
      = [(JStr ''Gold'', [exampleRange 0 0])]"
proof -
  let ?dd = "(exampleDecoration 0)\<lparr> lineToUpdateWhenTimeoutEnds := enat 1 \<rparr>"
  let ?tokens = "[IToken (Token ''punctuation'' (CString ''('')), IString [CHR 0x0A],
         IToken (Token ''punctuation'' (CString '')''))]"
  let ?b = "foundBracketAt 1 0 '')''"
  let ?de = "(exampleDecoration 0)\<lparr> lineToUpdateWhenTimeoutEnds := enat 1,
                  lines := [exampleCachedLine (JStr ''Gold''), exampleCachedLine (JStr ''Orchid'')] \<rparr>"
  let ?w = "exampleWorld [''('', '')'']"
  let ?X = "updateDecorations exampleCollaborators (?de, ?w)"
  have m: "?b \<in> set (snd (parseTokenOrStringArray ?dd ?tokens 0 0 []))"
    by code_simp
  have n: "foundBracketAt 0 0 ''('' \<notin> set (snd (parseTokenOrStringArray ?dd ?tokens 0 0 []))"
    by code_simp
  have x: "?X = ((fst (fst ?X), snd (fst ?X)), snd ?X)" by simp
  have l: "0 < length (lines ?de) \<and> enat 0 < lineToUpdateWhenTimeoutEnds ?de"
    by (simp add: zero_enat_def)
  from occurrences_only_at_or_above_marker[where this = ?dd and tokens = ?tokens and b = ?b
      and lineIndex = 0 and charIndex = 0] m
  have a: "lineToUpdateWhenTimeoutEnds ?dd \<le> enat (line (start (bracketRange ?b)))" by blast
  from occurrences_only_at_or_above_marker[where this = ?de and ext = exampleCollaborators
      and w = ?w and this' = "fst (fst ?X)" and w' = "snd (fst ?X)" and r = "snd ?X" and i = 0] x l
  have "colorRanges exampleCollaborators (lines (fst (fst ?X)) ! 0)
        = colorRanges exampleCollaborators (lines ?de ! 0)" by blast
  then have c: "colorRanges exampleCollaborators (lines (fst (fst ?X)) ! 0) = [(JStr ''Gold'', [exampleRange 0 0])]"
    by (simp add: exampleCollaborators_def exampleCachedLine_def)
  from m n a c show ?thesis by blast
qed

subsection \<open>C10: the empty color\<close>

text \<open>
  C10. Let the settings be those the constructor built from a configuration in which
  the empty string is a palette color or an orphan color. A decoration was created for
  it; and no pass, however it ends, calls \<open>setDecorations\<close> with that decoration: the
  calls made for it and what any editor shows for it stay as they were.
\<close>

theorem empty_color_never_rendered:
  assumes "Settings_constructor languageID configuration = Inr (settings this)"
    and "JStr [] \<in> configuredColors (bracketPairs (settings this))"
    and "updateDecorations ext (this, w) = ((this', w'), r)"
  shows "(JStr [], DecorationType (JStr [])) \<in> set (bracketDecorations (settings this))
       \<and> filter (\<lambda>call. fst (snd call) = DecorationType (JStr [])) (setDecorationsCalls w')
           = filter (\<lambda>call. fst (snd call) = DecorationType (JStr [])) (setDecorationsCalls w)
       \<and> rendered w' e (DecorationType (JStr [])) = rendered w e (DecorationType (JStr []))"
proof -
  let ?decs = "bracketDecorations (settings this)"
  let ?d = "DecorationType (JStr [])"
  have decs: "?decs = createBracketDecorations (bracketPairs (settings this))"
    using Settings_constructor_Inr(1)[OF assms(1)] .
  have created: "(JStr [], ?d) \<in> set ?decs"
    using assms(2) by (simp add: decs createBracketDecorations_member)
  obtain new where calls: "setDecorationsCalls w' = setDecorationsCalls w @ new"
    and none: "\<forall>call \<in> set new. fst (snd call) \<noteq> ?d"
  proof (cases "r = Rendered")
    case True
    let ?new = "decorationCalls ?decs (reduceColorRanges ext (lines this'))
                  (filter (\<lambda>e. document this = editorDocument e) (visibleTextEditors w))"
    have c: "setDecorationsCalls w' = setDecorationsCalls w @ ?new"
      using updateDecorations_rendered_calls assms(3) True by blast
    have "\<forall>call \<in> set ?new. fst (snd call) \<noteq> ?d"
    proof
      fix call assume "call \<in> set ?new"
      then obtain color decoration where
        x: "(color, decoration) \<in> set ?decs" "color \<noteq> JStr []" "fst (snd call) = decoration"
        unfolding decorationCalls_member by auto
      from x(1) have "decoration = DecorationType color"
        by (simp add: decs createBracketDecorations_member)
      with x show "fst (snd call) \<noteq> ?d" by simp
    qed
    with c that show ?thesis by blast
  next
    case False
    from updateDecorations_other_marker[OF assms(3) False]
    have "setDecorationsCalls w' = setDecorationsCalls w @ []" by simp
    with that show ?thesis by fastforce
  qed
  from none have f: "filter (\<lambda>call. fst (snd call) = ?d) new = []"
    by (simp add: filter_empty_conv)
  from none have "\<forall>c \<in> set new. \<not> (fst c = e \<and> fst (snd c) = ?d)" by blast
  from rendered_new_calls(1)[OF calls this] created calls f show ?thesis by simp
qed

text \<open>Settings with the empty string in the palette: the range an editor shows for its
  decoration survives a pass untouched.\<close>

theorem empty_color_never_rendered_witness:
  "(JStr [], DecorationType (JStr [])) \<in> set (bracketDecorations emptyColorSettings)
   \<and> filter (\<lambda>call. fst (snd call) = DecorationType (JStr []))
        (setDecorationsCalls (snd (fst (updateDecorations exampleCollaborators
           (DocumentDecoration_constructor 7 emptyColorSettings,
            (exampleWorld [''(a)''])\<lparr> setDecorationsCalls := [(1, DecorationType (JStr []), [exampleRange 0 0])] \<rparr>)))))
      = [(1, DecorationType (JStr []), [exampleRange 0 0])]
   \<and> rendered (snd (fst (updateDecorations exampleCollaborators
           (DocumentDecoration_constructor 7 emptyColorSettings,
            (exampleWorld [''(a)''])\<lparr> setDecorationsCalls := [(1, DecorationType (JStr []), [exampleRange 0 0])] \<rparr>))))
        1 (DecorationType (JStr []))
      = Some [exampleRange 0 0]"
proof -
  let ?dd = "DocumentDecoration_constructor 7 emptyColorSettings :: ExampleLine DocumentDecoration"
  let ?w = "(exampleWorld [''(a)''])\<lparr> setDecorationsCalls := [(1, DecorationType (JStr []), [exampleRange 0 0])] \<rparr>"
  let ?X = "updateDecorations exampleCollaborators (?dd, ?w)"
  have s: "Settings_constructor ''typescript''
       (exampleConfiguration (JArr [JStr ''()'', JArr [JStr [], JStr ''Gold''], JStr ''Red'']) 0) = Inr (settings ?dd)"
    unfolding emptyColorSettings_def by code_simp
  have c: "JStr [] \<in> configuredColors (bracketPairs (settings ?dd))"
    by code_simp
  have x: "?X = ((fst (fst ?X), snd (fst ?X)), snd ?X)" by simp
  have r: "rendered ?w 1 (DecorationType (JStr [])) = Some [exampleRange 0 0]"
    by (simp add: rendered_def)
  from empty_color_never_rendered[OF s c x, of 1] r
  show ?thesis by (simp add: DocumentDecoration_constructor_def)
qed

end
